theory Spec2Isabelle
  imports Main "HOL-Library.AList" "HOL-Library.Multiset" "HOL-Library.Word"
begin

section \<open>The orchestration workbench of \<^verbatim>\<open>tools/orchestration_tools.py\<close>\<close>

text \<open>
  The module keeps one process-wide state: a dict of agent sessions, a dict of knowledge
  atoms, a list of workflow tasks and a list of history records. Every tool is a function
  of that state. Python dicts keep insertion order, so both dicts are association lists
  whose keys are distinct; \<open>d[k] = v\<close> is \<^const>\<open>AList.update\<close> (an existing key keeps
  its position, a new one goes to the end).

  What the module reads from outside is passed in:
  \<^item> \<open>datetime.now().isoformat()\<close>: a clock \<open>nat \<Rightarrow> timestamp\<close>, whose value at \<open>k\<close> is the
    \<open>k\<close>-th reading taken during the call;
  \<^item> \<open>int(time.time() * 1000)\<close>: the integer \<open>ms\<close>;
  \<^item> \<open>json.loads\<close>: a decoder with three outcomes: the decoded value, the text of a
    \<open>JSONDecodeError\<close> (the one exception the tools catch), or an exception of another
    class (\<open>RecursionError\<close> on a deeply nested text, a plain \<open>ValueError\<close> on an integer
    of too many digits), which no tool catches.
  Strings are lists of 8-bit characters.
\<close>

subsection \<open>Values read from outside\<close>

type_synonym timestamp = string
type_synonym clock = "nat \<Rightarrow> timestamp"

text \<open>What \<open>json.loads\<close> can return; a float is kept as its 64-bit pattern, which the
  module never inspects.\<close>

datatype json =
    JNull
  | JBool bool
  | JInt int
  | JFloat "64 word"
  | JStr string
  | JArr "json list"
  | JObj "(string \<times> json) list"

text \<open>The outcomes of \<open>json.loads\<close>: a value, a \<open>JSONDecodeError\<close> with the text of
  \<open>str(e)\<close>, or an exception of another class, with the name of the class.\<close>

datatype decoded =
    Decoded json
  | JSONDecodeError string
  | OtherException string

type_synonym decoder = "string \<Rightarrow> decoded"

text \<open>\<open>json.loads(x) if x else {}\<close>\<close>

definition loads_or_empty :: "decoder \<Rightarrow> string \<Rightarrow> decoded" where
  "loads_or_empty loads x = (if x \<noteq> [] then loads x else Decoded (JObj []))"

subsection \<open>String helpers of the Python runtime\<close>

text \<open>\<open>str(n)\<close> for an integer, as the f-strings of the ids use it.\<close>

definition digit_char :: "nat \<Rightarrow> char" where
  "digit_char d = ''0123456789'' ! (d mod 10)"

fun str_nat :: "nat \<Rightarrow> string" where
  "str_nat n = (if n < 10 then [digit_char n] else str_nat (n div 10) @ [digit_char (n mod 10)])"

declare str_nat.simps [simp del]

definition str_int :: "int \<Rightarrow> string" where
  "str_int i = (if i < 0 then CHR ''-'' # str_nat (nat (- i)) else str_nat (nat i))"

text \<open>\<open>s.split(",")\<close>: always at least one piece.\<close>

fun split_on :: "char \<Rightarrow> string \<Rightarrow> string list" where
  "split_on sep [] = [[]]"
| "split_on sep (c # cs) =
     (if c = sep then [] # split_on sep cs
      else (case split_on sep cs of
              w # ws \<Rightarrow> (c # w) # ws
            | [] \<Rightarrow> [[c]]))"

text \<open>\<open>str.isspace\<close> on the code points below 256, and \<open>s.strip()\<close>.\<close>

definition is_space :: "char \<Rightarrow> bool" where
  "is_space c =
     (let n = (of_char c :: nat)
      in (9 \<le> n \<and> n \<le> 13) \<or> (28 \<le> n \<and> n \<le> 32) \<or> n = 133 \<or> n = 160)"

definition strip :: "string \<Rightarrow> string" where
  "strip s = rev (dropWhile is_space (rev (dropWhile is_space s)))"

text \<open>
  \<open>xs.sort(key=k, reverse=True)\<close>. The list sort of Python is stable, and with
  \<open>reverse=True\<close> it reverses the list, sorts it stably in ascending order of the key and
  reverses the result, so that equal keys keep their original order.
\<close>

definition sort_reverse :: "('a \<Rightarrow> 'k::linorder) \<Rightarrow> 'a list \<Rightarrow> 'a list" where
  "sort_reverse k xs = rev (sort_key k (rev xs))"

text \<open>The index of the first element a \<open>for ... if ...: break\<close> loop stops at.\<close>

fun find_first :: "('a \<Rightarrow> bool) \<Rightarrow> 'a list \<Rightarrow> nat option" where
  "find_first P [] = None"
| "find_first P (x # xs) = (if P x then Some 0 else map_option Suc (find_first P xs))"

subsection \<open>The classes\<close>

record agent_session =
  agent_id :: string
  agent_type :: string
  capabilities :: "string list"
  agent_created_at :: timestamp
  last_active :: timestamp
  agent_status :: string
  task_count :: int
  agent_metadata :: json

record knowledge_atom =
  atom_type :: string
  content :: json
  source_agent :: string
  atom_created_at :: timestamp
  access_count :: int
  last_accessed :: "timestamp option"
  atom_metadata :: json

record workflow_task =
  task_id :: string
  task_type :: string
  params :: json
  assigned_agent :: string
  priority :: int
  status :: string
  created_at :: timestamp
  started_at :: "timestamp option"
  completed_at :: "timestamp option"
  result :: "json option"

text \<open>An entry of \<open>workflow_history\<close>.\<close>

record history_record =
  h_task_id :: string
  h_task_type :: string
  h_agent :: string
  h_status :: string
  h_completed_at :: "timestamp option"
  h_result :: json

text \<open>\<open>_orchestration_state\<close> without its lock.\<close>

record orchestration_state =
  agents :: "(string \<times> agent_session) list"
  knowledge_base :: "(string \<times> knowledge_atom) list"
  task_queue :: "workflow_task list"
  workflow_history :: "history_record list"

definition initial_state :: orchestration_state where
  "initial_state = \<lparr>agents = [], knowledge_base = [], task_queue = [], workflow_history = []\<rparr>"

text \<open>
  The constructors. \<open>AgentSession.__init__\<close> reads the clock twice. A \<open>KnowledgeAtom\<close>
  gets its \<open>metadata\<close> attribute from \<open>share_knowledge\<close>, right after it is constructed;
  the record holds the empty object until then.
\<close>

definition AgentSession :: "string \<Rightarrow> string \<Rightarrow> string list \<Rightarrow> clock \<Rightarrow> agent_session" where
  "AgentSession aid atype caps clock =
     \<lparr>agent_id = aid, agent_type = atype, capabilities = caps,
      agent_created_at = clock 0, last_active = clock 1,
      agent_status = ''active'', task_count = 0, agent_metadata = JObj []\<rparr>"

definition KnowledgeAtom :: "string \<Rightarrow> json \<Rightarrow> string \<Rightarrow> clock \<Rightarrow> knowledge_atom" where
  "KnowledgeAtom atype c src clock =
     \<lparr>atom_type = atype, content = c, source_agent = src,
      atom_created_at = clock 0, access_count = 0, last_accessed = None,
      atom_metadata = JObj []\<rparr>"

definition WorkflowTask ::
  "string \<Rightarrow> string \<Rightarrow> json \<Rightarrow> string \<Rightarrow> int \<Rightarrow> clock \<Rightarrow> workflow_task" where
  "WorkflowTask tid ttype ps assigned prio clock =
     \<lparr>task_id = tid, task_type = ttype, params = ps, assigned_agent = assigned,
      priority = prio, status = ''pending'', created_at = clock 0,
      started_at = None, completed_at = None, result = None\<rparr>"

subsection \<open>Error results\<close>

text \<open>
  Every tool answers an error with \<open>{"status": "error", "error": message}\<close>; the
  constructors are the messages of the module. \<open>Uncaught\<close> is not a reply: an exception
  that no \<open>except\<close> clause of the tool catches leaves the tool (the \<open>with\<close> statement
  releases the lock), and the constructor carries the name of its class.
\<close>

datatype error =
    AgentNotFound string
  | InvalidJSON string string
  | AgentNotRegistered string
  | NoAvailableTasks
  | TaskNotFound string
  | ConfirmRequired
  | Uncaught string

text \<open>The \<open>error\<close> field of the reply; there is none when the tool raises.\<close>

fun error_message :: "error \<Rightarrow> string option" where
  "error_message (AgentNotFound a) = Some (''Agent '' @ a @ '' not found'')"
| "error_message (InvalidJSON what e) = Some (''Invalid JSON in '' @ what @ '': '' @ e)"
| "error_message (AgentNotRegistered a) = Some (''Agent '' @ a @ '' not registered'')"
| "error_message NoAvailableTasks = Some ''No available tasks to claim''"
| "error_message (TaskNotFound t) = Some (''Task '' @ t @ '' not found'')"
| "error_message ConfirmRequired =
     Some ''Must set confirm=True to clear orchestration state''"
| "error_message (Uncaught exc) = None"

subsection \<open>Agent tools\<close>

datatype register_reply =
    Reactivated string string "string list" int
  | Registered string string "string list" timestamp

text \<open>The reply's \<open>message\<close> is fixed by the agent id and the branch taken.\<close>

fun register_message :: "register_reply \<Rightarrow> string" where
  "register_message (Reactivated a _ _ _) = ''Agent '' @ a @ '' re-activated''"
| "register_message (Registered a _ _ _) = ''Agent '' @ a @ '' registered successfully''"

definition register_agent ::
  "orchestration_state \<Rightarrow> string \<Rightarrow> string \<Rightarrow> string \<Rightarrow> clock
     \<Rightarrow> orchestration_state \<times> register_reply" where
  "register_agent s aid atype caps clock =
     (let cap_list = (if caps \<noteq> [] then map strip (split_on CHR '','' caps) else [])
      in case map_of (agents s) aid of
           Some agent \<Rightarrow>
             (let agent' = agent\<lparr>last_active := clock 0, agent_status := ''active''\<rparr>
              in (s\<lparr>agents := AList.update aid agent' (agents s)\<rparr>,
                  Reactivated (agent_id agent') (agent_type agent') (capabilities agent')
                    (task_count agent')))
         | None \<Rightarrow>
             (let agent = AgentSession aid atype cap_list clock
              in (s\<lparr>agents := AList.update aid agent (agents s)\<rparr>,
                  Registered (agent_id agent) (agent_type agent) (capabilities agent)
                    (agent_created_at agent))))"

record agent_summary =
  as_id :: string
  as_type :: string
  as_status :: string
  as_capabilities :: "string list"
  as_task_count :: int
  as_created_at :: timestamp
  as_last_active :: timestamp

definition list_active_agents :: "orchestration_state \<Rightarrow> nat \<times> agent_summary list" where
  "list_active_agents s =
     (let found = map (\<lambda>(aid, agent).
                    \<lparr>as_id = agent_id agent, as_type = agent_type agent,
                     as_status = agent_status agent, as_capabilities = capabilities agent,
                     as_task_count = task_count agent, as_created_at = agent_created_at agent,
                     as_last_active = last_active agent\<rparr>) (agents s)
      in (length found, found))"

definition deregister_agent ::
  "orchestration_state \<Rightarrow> string \<Rightarrow> orchestration_state \<times> (error + string)" where
  "deregister_agent s aid =
     (case map_of (agents s) aid of
        None \<Rightarrow> (s, Inl (AgentNotFound aid))
      | Some agent \<Rightarrow>
          (s\<lparr>agents := AList.update aid (agent\<lparr>agent_status := ''inactive''\<rparr>) (agents s)\<rparr>,
           Inr (''Agent '' @ aid @ '' deregistered successfully'')))"

subsection \<open>Knowledge tools\<close>

record share_reply =
  sr_atom_id :: string
  sr_knowledge_type :: string
  sr_created_at :: timestamp

definition share_knowledge ::
  "decoder \<Rightarrow> orchestration_state \<Rightarrow> string \<Rightarrow> string \<Rightarrow> string \<Rightarrow> string \<Rightarrow> int \<Rightarrow> clock
     \<Rightarrow> orchestration_state \<times> (error + share_reply)" where
  "share_knowledge loads s knowledge_type knowledge_content src meta_str ms clock =
     (case loads_or_empty loads knowledge_content of
        JSONDecodeError e \<Rightarrow> (s, Inl (InvalidJSON ''content or metadata'' e))
      | OtherException exc \<Rightarrow> (s, Inl (Uncaught exc))
      | Decoded c \<Rightarrow>
          (case loads_or_empty loads meta_str of
             JSONDecodeError e \<Rightarrow> (s, Inl (InvalidJSON ''content or metadata'' e))
           | OtherException exc \<Rightarrow> (s, Inl (Uncaught exc))
           | Decoded meta \<Rightarrow>
               (let atom_id = knowledge_type @ ''_'' @ str_int ms;
                    atom = (KnowledgeAtom knowledge_type c src clock)\<lparr>atom_metadata := meta\<rparr>
                in (s\<lparr>knowledge_base := AList.update atom_id atom (knowledge_base s)\<rparr>,
                    Inr \<lparr>sr_atom_id = atom_id, sr_knowledge_type = knowledge_type,
                         sr_created_at = atom_created_at atom\<rparr>))))"

record atom_view =
  av_atom_id :: string
  av_type :: string
  av_content :: json
  av_source_agent :: string
  av_created_at :: timestamp
  av_access_count :: int

text \<open>
  The loop of \<open>query_knowledge\<close> over the items of the knowledge base, with the results
  collected so far. A matching atom is updated and appended before the limit is tested;
  the clock is read once for each atom appended.
\<close>

fun query_loop ::
  "string \<Rightarrow> string \<Rightarrow> int \<Rightarrow> clock \<Rightarrow> (string \<times> knowledge_atom) list \<Rightarrow> atom_view list
     \<Rightarrow> (string \<times> knowledge_atom) list \<times> atom_view list" where
  "query_loop knowledge_type src limit clock [] results = ([], results)"
| "query_loop knowledge_type src limit clock ((atom_id, atom) # rest) results =
     (if knowledge_type \<noteq> [] \<and> atom_type atom \<noteq> knowledge_type then
        (let (rest', out) = query_loop knowledge_type src limit clock rest results
         in ((atom_id, atom) # rest', out))
      else if src \<noteq> [] \<and> source_agent atom \<noteq> src then
        (let (rest', out) = query_loop knowledge_type src limit clock rest results
         in ((atom_id, atom) # rest', out))
      else
        (let atom' = atom\<lparr>access_count := access_count atom + 1,
                          last_accessed := Some (clock (length results))\<rparr>;
             results' = results @
               [\<lparr>av_atom_id = atom_id, av_type = atom_type atom', av_content = content atom',
                 av_source_agent = source_agent atom', av_created_at = atom_created_at atom',
                 av_access_count = access_count atom'\<rparr>]
         in if int (length results') \<ge> limit then ((atom_id, atom') # rest, results')
            else (let (rest', out) = query_loop knowledge_type src limit clock rest results'
                  in ((atom_id, atom') # rest', out))))"

record query_reply =
  total_results :: nat
  atoms :: "atom_view list"

definition query_knowledge ::
  "orchestration_state \<Rightarrow> string \<Rightarrow> string \<Rightarrow> int \<Rightarrow> clock
     \<Rightarrow> orchestration_state \<times> query_reply" where
  "query_knowledge s knowledge_type src limit clock =
     (let (kb', results) = query_loop knowledge_type src limit clock (knowledge_base s) []
      in (s\<lparr>knowledge_base := kb'\<rparr>,
          \<lparr>total_results = length results, atoms = results\<rparr>))"

subsection \<open>Task tools\<close>

record create_reply =
  cr_task_id :: string
  cr_task_type :: string
  cr_priority :: int
  cr_assigned_agent :: string

definition create_workflow_task ::
  "decoder \<Rightarrow> orchestration_state \<Rightarrow> string \<Rightarrow> string \<Rightarrow> string \<Rightarrow> int \<Rightarrow> int \<Rightarrow> clock
     \<Rightarrow> orchestration_state \<times> (error + create_reply)" where
  "create_workflow_task loads s ttype task_params assigned prio ms clock =
     (case loads_or_empty loads task_params of
        JSONDecodeError e \<Rightarrow> (s, Inl (InvalidJSON ''task_params'' e))
      | OtherException exc \<Rightarrow> (s, Inl (Uncaught exc))
      | Decoded ps \<Rightarrow>
          (let tid = ''task_'' @ str_int ms;
               task = WorkflowTask tid ttype ps assigned prio clock
           in (s\<lparr>task_queue := sort_reverse priority (task_queue s @ [task])\<rparr>,
               Inr \<lparr>cr_task_id = tid, cr_task_type = ttype, cr_priority = prio,
                    cr_assigned_agent = (if assigned \<noteq> [] then assigned else ''unassigned'')\<rparr>)))"

record claim_reply =
  cl_task_id :: string
  cl_task_type :: string
  cl_params :: json
  cl_priority :: int

text \<open>The task a claim stops at: with a task id, the first pending task of that id;
  without, the first pending task whose \<open>assigned_agent\<close> is empty.\<close>

definition task_to_claim :: "workflow_task list \<Rightarrow> string \<Rightarrow> nat option" where
  "task_to_claim queue tid =
     (if tid \<noteq> [] then find_first (\<lambda>t. task_id t = tid \<and> status t = ''pending'') queue
      else find_first (\<lambda>t. status t = ''pending'' \<and> assigned_agent t = []) queue)"

definition claim_workflow_task ::
  "orchestration_state \<Rightarrow> string \<Rightarrow> string \<Rightarrow> clock
     \<Rightarrow> orchestration_state \<times> (error + claim_reply)" where
  "claim_workflow_task s aid tid clock =
     (case map_of (agents s) aid of
        None \<Rightarrow> (s, Inl (AgentNotRegistered aid))
      | Some agent \<Rightarrow>
          (case task_to_claim (task_queue s) tid of
             None \<Rightarrow> (s, Inl NoAvailableTasks)
           | Some i \<Rightarrow>
               (let task = (task_queue s ! i)
                      \<lparr>assigned_agent := aid, status := ''claimed'',
                       started_at := Some (clock 0)\<rparr>;
                    agent' = agent\<lparr>task_count := task_count agent + 1,
                                   last_active := clock 1\<rparr>
                in (s\<lparr>task_queue := (task_queue s)[i := task],
                      agents := AList.update aid agent' (agents s)\<rparr>,
                    Inr \<lparr>cl_task_id = task_id task, cl_task_type = task_type task,
                         cl_params = params task, cl_priority = priority task\<rparr>))))"

definition complete_workflow_task ::
  "decoder \<Rightarrow> orchestration_state \<Rightarrow> string \<Rightarrow> string \<Rightarrow> bool \<Rightarrow> clock
     \<Rightarrow> orchestration_state \<times> (error + string \<times> string)" where
  "complete_workflow_task loads s tid result_str success clock =
     (case find_first (\<lambda>t. task_id t = tid) (task_queue s) of
        None \<Rightarrow> (s, Inl (TaskNotFound tid))
      | Some i \<Rightarrow>
          (case loads_or_empty loads result_str of
             JSONDecodeError e \<Rightarrow> (s, Inl (InvalidJSON ''result'' e))
           | OtherException exc \<Rightarrow> (s, Inl (Uncaught exc))
           | Decoded result_data \<Rightarrow>
               (let task = (task_queue s ! i)
                      \<lparr>status := (if success then ''completed'' else ''failed''),
                       completed_at := Some (clock 0), result := Some result_data\<rparr>
                in (s\<lparr>task_queue := (task_queue s)[i := task],
                      workflow_history := workflow_history s @
                        [\<lparr>h_task_id = tid, h_task_type = task_type task,
                          h_agent = assigned_agent task, h_status = status task,
                          h_completed_at = completed_at task, h_result = result_data\<rparr>]\<rparr>,
                    Inr (tid, status task)))))"

record task_summary =
  ts_task_id :: string
  ts_task_type :: string
  ts_status :: string
  ts_assigned_agent :: string
  ts_priority :: int
  ts_created_at :: timestamp
  ts_params :: json

definition summary :: "workflow_task \<Rightarrow> task_summary" where
  "summary t =
     \<lparr>ts_task_id = task_id t, ts_task_type = task_type t, ts_status = status t,
      ts_assigned_agent = (if assigned_agent t \<noteq> [] then assigned_agent t else ''unassigned''),
      ts_priority = priority t, ts_created_at = created_at t, ts_params = params t\<rparr>"

definition list_workflow_tasks ::
  "orchestration_state \<Rightarrow> string \<Rightarrow> string \<Rightarrow> nat \<times> task_summary list" where
  "list_workflow_tasks s st assigned =
     (let found = map summary
            (filter (\<lambda>t. \<not> (st \<noteq> [] \<and> status t \<noteq> st) \<and>
                          \<not> (assigned \<noteq> [] \<and> assigned_agent t \<noteq> assigned))
               (task_queue s))
      in (length found, found))"

subsection \<open>Status and reset\<close>

record status_reply =
  active_agents :: nat
  total_agents :: nat
  pending_tasks :: nat
  claimed_tasks :: nat
  completed_tasks :: nat
  knowledge_atoms :: nat

definition get_orchestration_status :: "orchestration_state \<Rightarrow> status_reply" where
  "get_orchestration_status s =
     \<lparr>active_agents = length (filter (\<lambda>(_, a). agent_status a = ''active'') (agents s)),
      total_agents = length (agents s),
      pending_tasks = length (filter (\<lambda>t. status t = ''pending'') (task_queue s)),
      claimed_tasks = length (filter (\<lambda>t. status t = ''claimed'') (task_queue s)),
      completed_tasks = length (workflow_history s),
      knowledge_atoms = length (knowledge_base s)\<rparr>"

definition clear_orchestration_state ::
  "orchestration_state \<Rightarrow> bool \<Rightarrow> orchestration_state \<times> (error + string)" where
  "clear_orchestration_state s confirm =
     (if \<not> confirm then (s, Inl ConfirmRequired)
      else (s\<lparr>agents := [], knowledge_base := [], task_queue := [], workflow_history := []\<rparr>,
            Inr ''Orchestration state cleared successfully''))"

subsection \<open>Calls under the lock\<close>

text \<open>
  Every tool runs its whole body inside \<open>with _orchestration_state["lock"]\<close> (the clear
  tool tests \<open>confirm\<close> first, without touching the state). A call is therefore one step
  on the state, and calls made from several threads take effect one after the other, in
  the order in which they get the lock.
\<close>

datatype call =
    RegisterAgent string string string clock
  | ListActiveAgents
  | DeregisterAgent string
  | ShareKnowledge string string string string int clock
  | QueryKnowledge string string int clock
  | CreateWorkflowTask string string string int int clock
  | ClaimWorkflowTask string string clock
  | CompleteWorkflowTask string string bool clock
  | ListWorkflowTasks string string
  | GetOrchestrationStatus
  | ClearOrchestrationState bool

datatype reply =
    RegisterReply register_reply
  | AgentsReply "nat \<times> agent_summary list"
  | DeregisterReply "error + string"
  | ShareReply "error + share_reply"
  | QueryReply query_reply
  | CreateReply "error + create_reply"
  | ClaimReply "error + claim_reply"
  | CompleteReply "error + string \<times> string"
  | TasksReply "nat \<times> task_summary list"
  | StatusReply status_reply
  | ClearReply "error + string"

fun step :: "decoder \<Rightarrow> call \<Rightarrow> orchestration_state \<Rightarrow> orchestration_state \<times> reply" where
  "step loads (RegisterAgent aid atype caps clock) s =
     map_prod id RegisterReply (register_agent s aid atype caps clock)"
| "step loads ListActiveAgents s = (s, AgentsReply (list_active_agents s))"
| "step loads (DeregisterAgent aid) s = map_prod id DeregisterReply (deregister_agent s aid)"
| "step loads (ShareKnowledge kt kc src meta ms clock) s =
     map_prod id ShareReply (share_knowledge loads s kt kc src meta ms clock)"
| "step loads (QueryKnowledge kt src limit clock) s =
     map_prod id QueryReply (query_knowledge s kt src limit clock)"
| "step loads (CreateWorkflowTask ttype ps assigned prio ms clock) s =
     map_prod id CreateReply (create_workflow_task loads s ttype ps assigned prio ms clock)"
| "step loads (ClaimWorkflowTask aid tid clock) s =
     map_prod id ClaimReply (claim_workflow_task s aid tid clock)"
| "step loads (CompleteWorkflowTask tid res success clock) s =
     map_prod id CompleteReply (complete_workflow_task loads s tid res success clock)"
| "step loads (ListWorkflowTasks st assigned) s = (s, TasksReply (list_workflow_tasks s st assigned))"
| "step loads GetOrchestrationStatus s = (s, StatusReply (get_orchestration_status s))"
| "step loads (ClearOrchestrationState confirm) s =
     map_prod id ClearReply (clear_orchestration_state s confirm)"

text \<open>A schedule: the calls in the order in which they get the lock.\<close>

fun run :: "decoder \<Rightarrow> call list \<Rightarrow> orchestration_state \<Rightarrow> orchestration_state \<times> reply list" where
  "run loads [] s = (s, [])"
| "run loads (c # cs) s =
     (let (s', r) = step loads c s; (s'', rs) = run loads cs s' in (s'', r # rs))"

subsection \<open>Notions of the specification\<close>

text \<open>A task that a claim without a task id may take: pending, and assigned to nobody
  (\<open>task.status == "pending" and not task.assigned_agent\<close>).\<close>

definition claimable :: "workflow_task \<Rightarrow> bool" where
  "claimable t \<longleftrightarrow> status t = ''pending'' \<and> assigned_agent t = []"

subsection \<open>Example data\<close>

text \<open>
  A decoder for the examples. It answers as \<open>json.loads\<close> does on the payloads the
  examples use: the empty object, the empty array, the empty string and a text that is
  not JSON (both a \<open>JSONDecodeError\<close> "Expecting value"), and \<open>'[' * 100000\<close>, on which
  \<open>json.loads\<close> raises \<open>RecursionError\<close>.
\<close>

definition deep_brackets :: string where
  "deep_brackets = replicate 100000 CHR ''[''"

definition sample_loads :: decoder where
  "sample_loads x =
     (if x = ''{}'' then Decoded (JObj [])
      else if x = ''[]'' then Decoded (JArr [])
      else if x = deep_brackets then OtherException ''RecursionError''
      else JSONDecodeError ''Expecting value: line 1 column 1 (char 0)'')"

definition morning :: clock where
  "morning k =
     (if k = 0 then ''2025-01-01T09:00:00.000001'' else ''2025-01-01T09:00:00.000002'')"

definition evening :: clock where
  "evening k =
     (if k = 0 then ''2025-01-01T18:00:00.000001'' else ''2025-01-01T18:00:00.000002'')"

definition cursor_main :: agent_session where
  "cursor_main =
     AgentSession ''cursor-main'' ''cursor'' [''blueprint_creation'', ''level_design''] morning"

definition windsurf_1 :: agent_session where
  "windsurf_1 = AgentSession ''windsurf-1'' ''windsurf'' [] morning"

definition setup_level :: workflow_task where
  "setup_level =
     WorkflowTask ''task_1735722000002'' ''setup_level'' (JObj []) ''windsurf-1'' 10 morning"

definition create_blueprint :: workflow_task where
  "create_blueprint =
     WorkflowTask ''task_1735722000003'' ''create_blueprint'' (JArr []) [] 5 morning"

definition create_actor :: workflow_task where
  "create_actor = WorkflowTask ''task_1735722000001'' ''create_actor'' (JObj []) [] 1 morning"

text \<open>Two agents and three tasks, of which the most urgent one is assigned at creation.\<close>

definition workshop :: orchestration_state where
  "workshop =
     \<lparr>agents = [(''cursor-main'', cursor_main), (''windsurf-1'', windsurf_1)],
      knowledge_base = [],
      task_queue = [setup_level, create_blueprint, create_actor],
      workflow_history = []\<rparr>"

definition player_cube :: knowledge_atom where
  "player_cube = KnowledgeAtom ''actor'' (JObj []) ''cursor-main'' morning"

definition bp_player :: knowledge_atom where
  "bp_player = KnowledgeAtom ''blueprint'' (JObj []) ''cursor-main'' morning"

definition main_light :: knowledge_atom where
  "main_light = KnowledgeAtom ''actor'' (JArr []) ''windsurf-1'' morning"

text \<open>The example state with three atoms shared, two of them of type actor.\<close>

definition atomspace :: orchestration_state where
  "atomspace =
     workshop\<lparr>knowledge_base :=
       [(''actor_1735722000004'', player_cube),
        (''blueprint_1735722000005'', bp_player),
        (''actor_1735722000006'', main_light)]\<rparr>"

text \<open>An atom passes the two filters of \<open>query_knowledge\<close> (an empty filter passes all).\<close>

definition matches :: "string \<Rightarrow> string \<Rightarrow> knowledge_atom \<Rightarrow> bool" where
  "matches kt src atom \<longleftrightarrow>
     \<not> (kt \<noteq> [] \<and> atom_type atom \<noteq> kt) \<and> \<not> (src \<noteq> [] \<and> source_agent atom \<noteq> src)"

text \<open>An atom after one counted access at the \<open>k\<close>-th clock reading.\<close>

definition touched :: "clock \<Rightarrow> nat \<Rightarrow> knowledge_atom \<Rightarrow> knowledge_atom" where
  "touched clock k atom =
     atom\<lparr>access_count := access_count atom + 1, last_accessed := Some (clock k)\<rparr>"

text \<open>
  A knowledge base \<open>kb'\<close> is \<open>kb\<close> with exactly the atoms of the ids \<open>ids\<close> accessed once
  each, the \<open>k\<close>-th of them at clock reading \<open>n + k\<close>.
\<close>

definition tracked ::
  "clock \<Rightarrow> nat \<Rightarrow> (string \<times> knowledge_atom) list \<Rightarrow> (string \<times> knowledge_atom) list
     \<Rightarrow> string list \<Rightarrow> bool" where
  "tracked clock n kb kb' ids \<longleftrightarrow>
     map fst kb' = map fst kb \<and> distinct ids \<and> set ids \<subseteq> fst ` set kb \<and>
     (\<forall>k<length ids. \<exists>atom. map_of kb (ids ! k) = Some atom \<and>
        map_of kb' (ids ! k) = Some (touched clock (n + k) atom)) \<and>
     (\<forall>aid. aid \<notin> set ids \<longrightarrow> map_of kb' aid = map_of kb aid)"

text \<open>The task a \<open>create_workflow_task\<close> call constructs (none when its parameters do not
  decode), and the calls that are creations.\<close>

fun created :: "decoder \<Rightarrow> call \<Rightarrow> workflow_task list" where
  "created loads (CreateWorkflowTask ttype ps assigned prio ms clock) =
     (case loads_or_empty loads ps of
        Decoded p \<Rightarrow> [WorkflowTask (''task_'' @ str_int ms) ttype p assigned prio clock]
      | JSONDecodeError e \<Rightarrow> []
      | OtherException exc \<Rightarrow> [])"
| "created loads _ = []"

fun is_create :: "call \<Rightarrow> bool" where
  "is_create (CreateWorkflowTask ttype ps assigned prio ms clock) = True"
| "is_create _ = False"

definition spawn_light :: workflow_task where
  "spawn_light = WorkflowTask ''task_1735722000007'' ''spawn_light'' (JObj []) [] 5 morning"

text \<open>Four creations, the last two of the same priority.\<close>

definition four_creations :: "call list" where
  "four_creations =
     [CreateWorkflowTask ''create_actor'' ''{}'' [] 1 1735722000001 morning,
      CreateWorkflowTask ''setup_level'' ''{}'' ''windsurf-1'' 10 1735722000002 morning,
      CreateWorkflowTask ''create_blueprint'' ''[]'' [] 5 1735722000003 morning,
      CreateWorkflowTask ''spawn_light'' ''{}'' [] 5 1735722000007 morning]"

text \<open>The place of a status on the path pending, claimed, completed or failed.\<close>

definition status_rank :: "string \<Rightarrow> nat" where
  "status_rank st = (if st = ''pending'' then 0 else if st = ''claimed'' then 1 else 2)"

fun is_claim :: "call \<Rightarrow> bool" where
  "is_claim (ClaimWorkflowTask aid tid clock) = True"
| "is_claim _ = False"

fun is_complete :: "call \<Rightarrow> bool" where
  "is_complete (CompleteWorkflowTask tid res success clock) = True"
| "is_complete _ = False"

fun is_clear :: "call \<Rightarrow> bool" where
  "is_clear (ClearOrchestrationState confirm) = True"
| "is_clear _ = False"

text \<open>
  Two calls made at the same time by two threads: each runs inside the lock from its first
  statement to its return, so they take effect in one of two orders.
\<close>

definition serial_orders :: "call \<Rightarrow> call \<Rightarrow> call list list" where
  "serial_orders c1 c2 = [[c1, c2], [c2, c1]]"

text \<open>The example state with one task open to all: the other task is assigned.\<close>

definition one_open :: orchestration_state where
  "one_open = workshop\<lparr>task_queue := [setup_level, create_actor]\<rparr>"

text \<open>One open task and no agent registered.\<close>

definition unattended :: orchestration_state where
  "unattended = initial_state\<lparr>task_queue := [create_actor]\<rparr>"

text \<open>
  What holds of every state the tools can reach: the two dicts have distinct keys, and the
  task queue is in non-increasing order of priority.
\<close>

definition well_formed :: "orchestration_state \<Rightarrow> bool" where
  "well_formed s \<longleftrightarrow>
     distinct (map fst (agents s)) \<and> distinct (map fst (knowledge_base s)) \<and>
     sorted_wrt (\<ge>) (map priority (task_queue s))"

text \<open>Two tasks created in the same millisecond, so with the same id; the second one is
  assigned at creation.\<close>

definition twin_first :: workflow_task where
  "twin_first = WorkflowTask ''task_1735722000009'' ''create_actor'' (JObj []) [] 10 morning"

definition twin_second :: workflow_task where
  "twin_second =
     WorkflowTask ''task_1735722000009'' ''setup_level'' (JObj []) ''windsurf-1'' 1 morning"

definition twins :: orchestration_state where
  "twins = workshop\<lparr>task_queue := [twin_first, twin_second]\<rparr>"

section \<open>Properties\<close>

subsection \<open>Auxiliary facts\<close>

text \<open>The deeply nested payload of the examples is none of the short ones.\<close>

lemma length_deep_brackets: "length deep_brackets = 100000"
  by (simp add: deep_brackets_def)

lemma short_is_not_deep: "length x < 100000 \<Longrightarrow> x \<noteq> deep_brackets"
  using length_deep_brackets by auto

lemma deep_is_not_short: "length x < 100000 \<Longrightarrow> deep_brackets \<noteq> x"
  using length_deep_brackets by auto

lemma find_first_Some_iff:
  "find_first P xs = Some i \<longleftrightarrow> i < length xs \<and> P (xs ! i) \<and> (\<forall>j<i. \<not> P (xs ! j))"
proof (induction xs arbitrary: i)
  case Nil
  then show ?case by simp
next
  case (Cons x xs)
  show ?case
  proof (cases "P x")
    case True
    then show ?thesis by (cases i) auto
  next
    case False
    show ?thesis
    proof (cases i)
      case 0
      with False show ?thesis by simp
    next
      case (Suc k)
      have "(\<forall>j<Suc k. \<not> P ((x # xs) ! j)) \<longleftrightarrow> (\<forall>j<k. \<not> P (xs ! j))"
        using False by (auto simp: less_Suc_eq_0_disj)
      with False Suc Cons.IH [of k] show ?thesis by auto
    qed
  qed
qed

lemma find_first_None_iff: "find_first P xs = None \<longleftrightarrow> (\<forall>x\<in>set xs. \<not> P x)"
  by (induction xs) auto

text \<open>The example state is what the tools build from the empty state.\<close>

lemma workshop_reachable:
  "fst (run sample_loads
     [RegisterAgent ''cursor-main'' ''cursor'' ''blueprint_creation, level_design'' morning,
      RegisterAgent ''windsurf-1'' ''windsurf'' [] morning,
      CreateWorkflowTask ''create_actor'' ''{}'' [] 1 1735722000001 morning,
      CreateWorkflowTask ''setup_level'' ''{}'' ''windsurf-1'' 10 1735722000002 morning,
      CreateWorkflowTask ''create_blueprint'' ''[]'' [] 5 1735722000003 morning]
     initial_state) = workshop"
  by (simp add: workshop_def cursor_main_def windsurf_1_def setup_level_def create_blueprint_def
      create_actor_def initial_state_def register_agent_def create_workflow_task_def
      loads_or_empty_def sample_loads_def sort_reverse_def strip_def is_space_def
      str_int_def str_nat.simps digit_char_def WorkflowTask_def AgentSession_def Let_def)

subsection \<open>Registering an agent again\<close>

text \<open>
  C9. When \<open>register_agent\<close> is called with an agent id that is already in the registry,
  the session kept under that id is the old one with \<open>last_active\<close> set to the clock
  reading and \<open>status\<close> set to active: its task count, creation time, type, capabilities
  and metadata are the old ones, and the type and capabilities passed to the call are not
  used. The other sessions, the order of the registry and the other three stores are
  unchanged, and the reply reports the old type, capabilities and task count.
\<close>

theorem reregister_keeps_session:
  assumes "map_of (agents s) aid = Some agent"
  shows "register_agent s aid atype caps clock =
           (s\<lparr>agents := AList.update aid
                 (agent\<lparr>last_active := clock 0, agent_status := ''active''\<rparr>) (agents s)\<rparr>,
            Reactivated (agent_id agent) (agent_type agent) (capabilities agent)
              (task_count agent)) \<and>
         map_of (agents (fst (register_agent s aid atype caps clock))) aid =
           Some (agent\<lparr>last_active := clock 0, agent_status := ''active''\<rparr>) \<and>
         map fst (agents (fst (register_agent s aid atype caps clock))) = map fst (agents s)"
proof -
  have "aid \<in> fst ` set (agents s)"
    using assms by (metis domI dom_map_of_conv_image_fst)
  then have "map fst (AList.update aid v (agents s)) = map fst (agents s)" for v
    by (simp add: update_keys)
  with assms show ?thesis
    by (simp add: register_agent_def Let_def update_conv')
qed

theorem reregister_keeps_session_witness:
  "map_of (agents workshop) ''cursor-main'' = Some cursor_main \<and>
   register_agent workshop ''cursor-main'' ''windsurf'' ''ui_design'' evening =
     (workshop\<lparr>agents :=
        [(''cursor-main'',
          \<lparr>agent_id = ''cursor-main'', agent_type = ''cursor'',
           capabilities = [''blueprint_creation'', ''level_design''],
           agent_created_at = ''2025-01-01T09:00:00.000001'',
           last_active = ''2025-01-01T18:00:00.000001'', agent_status = ''active'',
           task_count = 0, agent_metadata = JObj []\<rparr>),
         (''windsurf-1'', windsurf_1)]\<rparr>,
      Reactivated ''cursor-main'' ''cursor'' [''blueprint_creation'', ''level_design''] 0)"
proof -
  have reg: "map_of (agents workshop) ''cursor-main'' = Some cursor_main"
    by (simp add: workshop_def)
  from reregister_keeps_session [OF reg, of "''windsurf''" "''ui_design''" evening]
  have "register_agent workshop ''cursor-main'' ''windsurf'' ''ui_design'' evening =
          (workshop\<lparr>agents := AList.update ''cursor-main''
              (cursor_main\<lparr>last_active := evening 0, agent_status := ''active''\<rparr>)
              (agents workshop)\<rparr>,
           Reactivated (agent_id cursor_main) (agent_type cursor_main)
             (capabilities cursor_main) (task_count cursor_main))"
    by blast
  then show ?thesis using reg
    by (simp add: workshop_def evening_def morning_def cursor_main_def AgentSession_def)
qed

subsection \<open>Claiming without a task id\<close>

text \<open>
  C7. A registered agent claims with an empty task id. If the queue has a pending task
  with no assigned agent, then the first such task \<open>i\<close> (no task before it is pending and
  unassigned) is the one claimed: in the new state that task has status claimed, the
  caller as assigned agent and the first clock reading as \<open>started_at\<close>, the caller's
  session has its task count increased by one (and \<open>last_active\<close> set to the second clock
  reading), and nothing else differs; the reply describes that task. If the queue has no
  such task, the reply is the error "No available tasks to claim" and the state is the
  one before the call.
\<close>

theorem claim_without_task_id:
  assumes "map_of (agents s) aid = Some agent"
  shows "(\<forall>i. i < length (task_queue s) \<and> claimable (task_queue s ! i) \<and>
              (\<forall>j<i. \<not> claimable (task_queue s ! j)) \<longrightarrow>
            claim_workflow_task s aid [] clock =
              (s\<lparr>task_queue := (task_queue s)
                    [i := (task_queue s ! i)\<lparr>assigned_agent := aid, status := ''claimed'',
                                             started_at := Some (clock 0)\<rparr>],
                 agents := AList.update aid
                    (agent\<lparr>task_count := task_count agent + 1, last_active := clock 1\<rparr>)
                    (agents s)\<rparr>,
               Inr \<lparr>cl_task_id = task_id (task_queue s ! i),
                    cl_task_type = task_type (task_queue s ! i),
                    cl_params = params (task_queue s ! i),
                    cl_priority = priority (task_queue s ! i)\<rparr>)) \<and>
         ((\<forall>t\<in>set (task_queue s). \<not> claimable t) \<longrightarrow>
            claim_workflow_task s aid [] clock = (s, Inl NoAvailableTasks))"
proof (intro conjI allI impI)
  fix i
  assume "i < length (task_queue s) \<and> claimable (task_queue s ! i) \<and>
              (\<forall>j<i. \<not> claimable (task_queue s ! j))"
  then have "task_to_claim (task_queue s) [] = Some i"
    by (simp add: task_to_claim_def find_first_Some_iff claimable_def)
  with assms show "claim_workflow_task s aid [] clock =
              (s\<lparr>task_queue := (task_queue s)
                    [i := (task_queue s ! i)\<lparr>assigned_agent := aid, status := ''claimed'',
                                             started_at := Some (clock 0)\<rparr>],
                 agents := AList.update aid
                    (agent\<lparr>task_count := task_count agent + 1, last_active := clock 1\<rparr>)
                    (agents s)\<rparr>,
               Inr \<lparr>cl_task_id = task_id (task_queue s ! i),
                    cl_task_type = task_type (task_queue s ! i),
                    cl_params = params (task_queue s ! i),
                    cl_priority = priority (task_queue s ! i)\<rparr>)"
    by (simp add: claim_workflow_task_def Let_def)
next
  assume "\<forall>t\<in>set (task_queue s). \<not> claimable t"
  then have "task_to_claim (task_queue s) [] = None"
    by (simp add: task_to_claim_def find_first_None_iff claimable_def)
  with assms show "claim_workflow_task s aid [] clock = (s, Inl NoAvailableTasks)"
    by (simp add: claim_workflow_task_def)
qed

theorem claim_without_task_id_witness:
  "map_of (agents workshop) ''cursor-main'' = Some cursor_main \<and>
   1 < length (task_queue workshop) \<and> claimable (task_queue workshop ! 1) \<and>
   \<not> claimable (task_queue workshop ! 0) \<and>
   claim_workflow_task workshop ''cursor-main'' [] evening =
     (workshop\<lparr>task_queue :=
         [setup_level,
          create_blueprint\<lparr>assigned_agent := ''cursor-main'', status := ''claimed'',
            started_at := Some ''2025-01-01T18:00:00.000001''\<rparr>,
          create_actor],
        agents :=
         [(''cursor-main'', cursor_main\<lparr>task_count := 1,
              last_active := ''2025-01-01T18:00:00.000002''\<rparr>),
          (''windsurf-1'', windsurf_1)]\<rparr>,
      Inr \<lparr>cl_task_id = ''task_1735722000003'', cl_task_type = ''create_blueprint'',
           cl_params = JArr [], cl_priority = 5\<rparr>) \<and>
   task_queue (workshop\<lparr>task_queue := [setup_level]\<rparr>) = [setup_level] \<and>
   \<not> claimable setup_level \<and>
   claim_workflow_task (workshop\<lparr>task_queue := [setup_level]\<rparr>) ''cursor-main'' [] evening =
     (workshop\<lparr>task_queue := [setup_level]\<rparr>, Inl NoAvailableTasks)"
proof -
  have reg: "map_of (agents workshop) ''cursor-main'' = Some cursor_main"
    by (simp add: workshop_def)
  have first: "1 < length (task_queue workshop) \<and> claimable (task_queue workshop ! 1) \<and>
      (\<forall>j<1. \<not> claimable (task_queue workshop ! j))"
    by (simp add: workshop_def claimable_def setup_level_def create_blueprint_def
        WorkflowTask_def)
  from claim_without_task_id [OF reg, of evening] first
  have "claim_workflow_task workshop ''cursor-main'' [] evening =
       (workshop\<lparr>task_queue := (task_queue workshop)
            [1 := (task_queue workshop ! 1)\<lparr>assigned_agent := ''cursor-main'',
                    status := ''claimed'', started_at := Some (evening 0)\<rparr>],
          agents := AList.update ''cursor-main''
            (cursor_main\<lparr>task_count := task_count cursor_main + 1,
               last_active := evening 1\<rparr>)
            (agents workshop)\<rparr>,
        Inr \<lparr>cl_task_id = task_id (task_queue workshop ! 1),
             cl_task_type = task_type (task_queue workshop ! 1),
             cl_params = params (task_queue workshop ! 1),
             cl_priority = priority (task_queue workshop ! 1)\<rparr>)"
    by blast
  then have taken: "claim_workflow_task workshop ''cursor-main'' [] evening =
     (workshop\<lparr>task_queue :=
         [setup_level,
          create_blueprint\<lparr>assigned_agent := ''cursor-main'', status := ''claimed'',
            started_at := Some ''2025-01-01T18:00:00.000001''\<rparr>,
          create_actor],
        agents :=
         [(''cursor-main'', cursor_main\<lparr>task_count := 1,
              last_active := ''2025-01-01T18:00:00.000002''\<rparr>),
          (''windsurf-1'', windsurf_1)]\<rparr>,
      Inr \<lparr>cl_task_id = ''task_1735722000003'', cl_task_type = ''create_blueprint'',
           cl_params = JArr [], cl_priority = 5\<rparr>)"
    by (simp add: workshop_def evening_def morning_def cursor_main_def AgentSession_def
        create_blueprint_def WorkflowTask_def)
  have reg': "map_of (agents (workshop\<lparr>task_queue := [setup_level]\<rparr>)) ''cursor-main'' =
      Some cursor_main"
    by (simp add: workshop_def)
  have none: "\<forall>t\<in>set (task_queue (workshop\<lparr>task_queue := [setup_level]\<rparr>)). \<not> claimable t"
    by (simp add: claimable_def setup_level_def WorkflowTask_def)
  from claim_without_task_id [OF reg', of evening] none
  have "claim_workflow_task (workshop\<lparr>task_queue := [setup_level]\<rparr>) ''cursor-main'' []
      evening = (workshop\<lparr>task_queue := [setup_level]\<rparr>, Inl NoAvailableTasks)"
    by blast
  with reg first taken none show ?thesis by simp
qed

subsection \<open>Claiming a task by its id\<close>

lemma twins_reachable:
  "fst (run sample_loads
     [RegisterAgent ''cursor-main'' ''cursor'' ''blueprint_creation, level_design'' morning,
      RegisterAgent ''windsurf-1'' ''windsurf'' [] morning,
      CreateWorkflowTask ''create_actor'' ''{}'' [] 10 1735722000009 morning,
      CreateWorkflowTask ''setup_level'' ''{}'' ''windsurf-1'' 1 1735722000009 morning]
     initial_state) = twins"
  by (simp add: twins_def workshop_def cursor_main_def windsurf_1_def twin_first_def
      twin_second_def initial_state_def register_agent_def create_workflow_task_def
      loads_or_empty_def sample_loads_def sort_reverse_def strip_def is_space_def
      str_int_def str_nat.simps digit_char_def WorkflowTask_def AgentSession_def Let_def)

text \<open>
  C10 as stated fails when two pending tasks have the same id, which happens when they
  are created in the same millisecond. In the example the second of the two is assigned
  to \<open>windsurf-1\<close>; a claim of that id by \<open>cursor-main\<close> succeeds, but it takes the first of
  the two, and the task assigned to \<open>windsurf-1\<close> stays pending and assigned to
  \<open>windsurf-1\<close>.
\<close>

theorem claim_by_id_leaves_later_twin:
  "map_of (agents twins) ''cursor-main'' = Some cursor_main \<and>
   task_id (task_queue twins ! 1) = ''task_1735722000009'' \<and>
   status (task_queue twins ! 1) = ''pending'' \<and>
   assigned_agent (task_queue twins ! 1) = ''windsurf-1'' \<and>
   claim_workflow_task twins ''cursor-main'' ''task_1735722000009'' evening =
     (twins\<lparr>task_queue :=
         [twin_first\<lparr>assigned_agent := ''cursor-main'', status := ''claimed'',
            started_at := Some ''2025-01-01T18:00:00.000001''\<rparr>,
          twin_second],
        agents :=
         [(''cursor-main'', cursor_main\<lparr>task_count := 1,
              last_active := ''2025-01-01T18:00:00.000002''\<rparr>),
          (''windsurf-1'', windsurf_1)]\<rparr>,
      Inr \<lparr>cl_task_id = ''task_1735722000009'', cl_task_type = ''create_actor'',
           cl_params = JObj [], cl_priority = 10\<rparr>) \<and>
   status (task_queue (fst (claim_workflow_task twins ''cursor-main''
       ''task_1735722000009'' evening)) ! 1) = ''pending'' \<and>
   assigned_agent (task_queue (fst (claim_workflow_task twins ''cursor-main''
       ''task_1735722000009'' evening)) ! 1) = ''windsurf-1''"
  by (simp add: claim_workflow_task_def task_to_claim_def twins_def workshop_def
      twin_first_def twin_second_def WorkflowTask_def cursor_main_def AgentSession_def
      evening_def morning_def Let_def)

text \<open>
  C10, amended. A registered agent claims with a task id, and some task \<open>i\<close> of the queue
  has that id and is pending. Then the claim succeeds, and the task it takes is the first
  pending task \<open>j\<close> of that id in the queue (so \<open>j \<le> i\<close>, and \<open>j = i\<close> when no pending task
  of that id comes before \<open>i\<close>): that task becomes claimed and its assigned agent becomes
  the caller, whatever it was before, be it nobody, the caller or another agent. An
  assignment made at creation does not keep other agents from claiming a pending task by
  its id. Nothing but that task and the caller's session changes.
\<close>

theorem claim_by_id_overrides_assignment:
  assumes "map_of (agents s) aid = Some agent"
    and "tid \<noteq> []"
    and "i < length (task_queue s)"
    and "task_id (task_queue s ! i) = tid"
    and "status (task_queue s ! i) = ''pending''"
  shows "\<exists>j\<le>i. task_id (task_queue s ! j) = tid \<and> status (task_queue s ! j) = ''pending'' \<and>
           (\<forall>k<j. \<not> (task_id (task_queue s ! k) = tid \<and>
                      status (task_queue s ! k) = ''pending'')) \<and>
           claim_workflow_task s aid tid clock =
             (s\<lparr>task_queue := (task_queue s)
                   [j := (task_queue s ! j)\<lparr>assigned_agent := aid, status := ''claimed'',
                                            started_at := Some (clock 0)\<rparr>],
                agents := AList.update aid
                   (agent\<lparr>task_count := task_count agent + 1, last_active := clock 1\<rparr>)
                   (agents s)\<rparr>,
              Inr \<lparr>cl_task_id = tid, cl_task_type = task_type (task_queue s ! j),
                   cl_params = params (task_queue s ! j),
                   cl_priority = priority (task_queue s ! j)\<rparr>) \<and>
           assigned_agent (task_queue (fst (claim_workflow_task s aid tid clock)) ! j) = aid"
proof -
  let ?P = "\<lambda>t. task_id t = tid \<and> status t = ''pending''"
  from assms(3-5) have "task_queue s ! i \<in> set (task_queue s)" "?P (task_queue s ! i)"
    by simp_all
  then have "find_first ?P (task_queue s) \<noteq> None"
    unfolding find_first_None_iff by blast
  then obtain j where j: "find_first ?P (task_queue s) = Some j"
    by blast
  then have len: "j < length (task_queue s)" and hit: "?P (task_queue s ! j)"
    and first: "\<forall>k<j. \<not> ?P (task_queue s ! k)"
    by (simp_all add: find_first_Some_iff)
  have "j \<le> i"
  proof (rule ccontr)
    assume "\<not> j \<le> i"
    then have "i < j" by simp
    with first have "\<not> ?P (task_queue s ! i)" by blast
    with assms(4,5) show False by simp
  qed
  moreover from j assms(2) have pick: "task_to_claim (task_queue s) tid = Some j"
    by (simp add: task_to_claim_def)
  have "claim_workflow_task s aid tid clock =
      (s\<lparr>task_queue := (task_queue s)
            [j := (task_queue s ! j)\<lparr>assigned_agent := aid, status := ''claimed'',
                                     started_at := Some (clock 0)\<rparr>],
         agents := AList.update aid
            (agent\<lparr>task_count := task_count agent + 1, last_active := clock 1\<rparr>)
            (agents s)\<rparr>,
       Inr \<lparr>cl_task_id = tid, cl_task_type = task_type (task_queue s ! j),
            cl_params = params (task_queue s ! j),
            cl_priority = priority (task_queue s ! j)\<rparr>)"
    using assms(1) pick hit by (simp add: claim_workflow_task_def Let_def)
  moreover from this len
  have "assigned_agent (task_queue (fst (claim_workflow_task s aid tid clock)) ! j) = aid"
    by simp
  ultimately show ?thesis
    using hit first by blast
qed

theorem claim_by_id_overrides_assignment_witness:
  "map_of (agents workshop) ''cursor-main'' = Some cursor_main \<and>
   ''task_1735722000002'' \<noteq> [] \<and>
   (0 :: nat) < length (task_queue workshop) \<and>
   task_queue workshop ! 0 = setup_level \<and>
   task_id setup_level = ''task_1735722000002'' \<and> status setup_level = ''pending'' \<and>
   assigned_agent setup_level = ''windsurf-1'' \<and>
   claim_workflow_task workshop ''cursor-main'' ''task_1735722000002'' evening =
     (workshop\<lparr>task_queue :=
         [setup_level\<lparr>assigned_agent := ''cursor-main'', status := ''claimed'',
            started_at := Some ''2025-01-01T18:00:00.000001''\<rparr>,
          create_blueprint, create_actor],
        agents :=
         [(''cursor-main'', cursor_main\<lparr>task_count := 1,
              last_active := ''2025-01-01T18:00:00.000002''\<rparr>),
          (''windsurf-1'', windsurf_1)]\<rparr>,
      Inr \<lparr>cl_task_id = ''task_1735722000002'', cl_task_type = ''setup_level'',
           cl_params = JObj [], cl_priority = 10\<rparr>) \<and>
   assigned_agent (task_queue (fst (claim_workflow_task workshop ''cursor-main''
       ''task_1735722000002'' evening)) ! 0) = ''cursor-main''"
proof -
  have reg: "map_of (agents workshop) ''cursor-main'' = Some cursor_main"
    by (simp add: workshop_def)
  have ne: "''task_1735722000002'' \<noteq> []" by simp
  have t: "task_queue workshop ! 0 = setup_level" "0 < length (task_queue workshop)"
    by (simp_all add: workshop_def)
  have f: "task_id setup_level = ''task_1735722000002''" "status setup_level = ''pending''"
    "assigned_agent setup_level = ''windsurf-1''"
    by (simp_all add: setup_level_def WorkflowTask_def)
  from claim_by_id_overrides_assignment [OF reg ne t(2), of evening] t f(1,2)
  have taken: "claim_workflow_task workshop ''cursor-main'' ''task_1735722000002'' evening =
       (workshop\<lparr>task_queue := (task_queue workshop)
            [0 := (task_queue workshop ! 0)\<lparr>assigned_agent := ''cursor-main'',
                    status := ''claimed'', started_at := Some (evening 0)\<rparr>],
          agents := AList.update ''cursor-main''
            (cursor_main\<lparr>task_count := task_count cursor_main + 1,
               last_active := evening 1\<rparr>)
            (agents workshop)\<rparr>,
        Inr \<lparr>cl_task_id = ''task_1735722000002'',
             cl_task_type = task_type (task_queue workshop ! 0),
             cl_params = params (task_queue workshop ! 0),
             cl_priority = priority (task_queue workshop ! 0)\<rparr>)"
    and owner: "assigned_agent (task_queue (fst (claim_workflow_task workshop ''cursor-main''
       ''task_1735722000002'' evening)) ! 0) = ''cursor-main''"
    by simp_all
  from taken have "claim_workflow_task workshop ''cursor-main'' ''task_1735722000002'' evening =
     (workshop\<lparr>task_queue :=
         [setup_level\<lparr>assigned_agent := ''cursor-main'', status := ''claimed'',
            started_at := Some ''2025-01-01T18:00:00.000001''\<rparr>,
          create_blueprint, create_actor],
        agents :=
         [(''cursor-main'', cursor_main\<lparr>task_count := 1,
              last_active := ''2025-01-01T18:00:00.000002''\<rparr>),
          (''windsurf-1'', windsurf_1)]\<rparr>,
      Inr \<lparr>cl_task_id = ''task_1735722000002'', cl_task_type = ''setup_level'',
           cl_params = JObj [], cl_priority = 10\<rparr>)"
    by (simp add: workshop_def evening_def morning_def cursor_main_def AgentSession_def
        setup_level_def WorkflowTask_def)
  with reg ne t f owner show ?thesis by simp
qed

subsection \<open>Generated ids\<close>

lemma atomspace_reachable:
  "fst (run sample_loads
     [ShareKnowledge ''actor'' ''{}'' ''cursor-main'' [] 1735722000004 morning,
      ShareKnowledge ''blueprint'' ''{}'' ''cursor-main'' ''{}'' 1735722000005 morning,
      ShareKnowledge ''actor'' ''[]'' ''windsurf-1'' [] 1735722000006 morning]
     workshop) = atomspace"
  by (simp add: atomspace_def workshop_def player_cube_def bp_player_def main_light_def
      share_knowledge_def loads_or_empty_def sample_loads_def KnowledgeAtom_def
      str_int_def str_nat.simps digit_char_def Let_def)

text \<open>
  C2. The claim: two successful \<open>share_knowledge\<close> calls, and likewise two successful
  \<open>create_workflow_task\<close> calls, never return the same id, also when both read the same
  millisecond. The ids are \<open>f"{knowledge_type}_{int(time.time() * 1000)}"\<close> and
  \<open>f"task_{int(time.time() * 1000)}"\<close>, so they repeat when the millisecond does: two
  shares of type actor at millisecond 1735722000004 both answer \<open>actor_1735722000004\<close>,
  and the second atom replaces the first in the knowledge base; two creations at
  millisecond 1735722000001 both answer \<open>task_1735722000001\<close>, and the queue then holds
  two tasks of that id.
\<close>

theorem same_millisecond_same_id:
  "share_knowledge sample_loads initial_state ''actor'' ''{}'' ''cursor-main'' []
       1735722000004 morning =
     (initial_state\<lparr>knowledge_base := [(''actor_1735722000004'', player_cube)]\<rparr>,
      Inr \<lparr>sr_atom_id = ''actor_1735722000004'', sr_knowledge_type = ''actor'',
           sr_created_at = ''2025-01-01T09:00:00.000001''\<rparr>) \<and>
   share_knowledge sample_loads
       (initial_state\<lparr>knowledge_base := [(''actor_1735722000004'', player_cube)]\<rparr>)
       ''actor'' ''[]'' ''windsurf-1'' [] 1735722000004 morning =
     (initial_state\<lparr>knowledge_base :=
        [(''actor_1735722000004'', main_light)]\<rparr>,
      Inr \<lparr>sr_atom_id = ''actor_1735722000004'', sr_knowledge_type = ''actor'',
           sr_created_at = ''2025-01-01T09:00:00.000001''\<rparr>) \<and>
   create_workflow_task sample_loads initial_state ''create_actor'' ''{}'' [] 1
       1735722000001 morning =
     (initial_state\<lparr>task_queue := [create_actor]\<rparr>,
      Inr \<lparr>cr_task_id = ''task_1735722000001'', cr_task_type = ''create_actor'',
           cr_priority = 1, cr_assigned_agent = ''unassigned''\<rparr>) \<and>
   create_workflow_task sample_loads (initial_state\<lparr>task_queue := [create_actor]\<rparr>)
       ''setup_level'' ''{}'' ''windsurf-1'' 10 1735722000001 morning =
     (initial_state\<lparr>task_queue :=
        [setup_level\<lparr>task_id := ''task_1735722000001''\<rparr>, create_actor]\<rparr>,
      Inr \<lparr>cr_task_id = ''task_1735722000001'', cr_task_type = ''setup_level'',
           cr_priority = 10, cr_assigned_agent = ''windsurf-1''\<rparr>)"
  by (simp add: share_knowledge_def create_workflow_task_def loads_or_empty_def
      sample_loads_def initial_state_def player_cube_def main_light_def KnowledgeAtom_def
      create_actor_def setup_level_def WorkflowTask_def sort_reverse_def morning_def
      str_int_def str_nat.simps digit_char_def Let_def)

subsection \<open>The limit of a query\<close>

text \<open>
  C6. The claim: for every limit, 0 and negative ones included, a query returns at most
  \<open>limit\<close> atoms, and \<open>total_results\<close> is the length of the returned list. The loop
  appends a matching atom before it tests \<open>len(results) >= limit\<close>, so a query with limit
  0 over a knowledge base with a matching atom returns that atom (and counts the access):
  one atom, which is more than the limit. \<open>total_results\<close> is 1, the length of the list.
\<close>

theorem query_limit_zero_returns_one:
  "query_knowledge atomspace [] [] 0 evening =
     (atomspace\<lparr>knowledge_base :=
        [(''actor_1735722000004'',
          player_cube\<lparr>access_count := 1,
            last_accessed := Some ''2025-01-01T18:00:00.000001''\<rparr>),
         (''blueprint_1735722000005'', bp_player),
         (''actor_1735722000006'', main_light)]\<rparr>,
      \<lparr>total_results = 1,
       atoms = [\<lparr>av_atom_id = ''actor_1735722000004'', av_type = ''actor'',
                 av_content = JObj [], av_source_agent = ''cursor-main'',
                 av_created_at = ''2025-01-01T09:00:00.000001'', av_access_count = 1\<rparr>]\<rparr>) \<and>
   \<not> int (length (atoms (snd (query_knowledge atomspace [] [] 0 evening)))) \<le> 0"
  by (simp add: query_knowledge_def atomspace_def player_cube_def KnowledgeAtom_def
      evening_def morning_def)

subsection \<open>Access tracking of a query\<close>

lemma tracked_skip:
  assumes "tracked clock n kb kb' ids" and "aid \<notin> fst ` set kb"
  shows "tracked clock n ((aid, atom) # kb) ((aid, atom) # kb') ids"
proof -
  from assms have notin: "aid \<notin> set ids"
    by (auto simp: tracked_def)
  have "\<forall>k<length ids. ids ! k \<noteq> aid"
    using notin by (metis nth_mem)
  with assms notin show ?thesis
    by (auto simp: tracked_def)
qed

lemma tracked_stop:
  assumes "aid \<notin> fst ` set kb"
  shows "tracked clock n ((aid, atom) # kb) ((aid, touched clock n atom) # kb) [aid]"
  using assms by (auto simp: tracked_def)

lemma tracked_take:
  assumes "tracked clock (Suc n) kb kb' ids" and "aid \<notin> fst ` set kb"
  shows "tracked clock n ((aid, atom) # kb) ((aid, touched clock n atom) # kb') (aid # ids)"
proof -
  from assms have notin: "aid \<notin> set ids"
    by (auto simp: tracked_def)
  then have ne: "\<forall>k<length ids. ids ! k \<noteq> aid"
    by (metis nth_mem)
  have "\<exists>a. map_of ((aid, atom) # kb) ((aid # ids) ! k) = Some a \<and>
          map_of ((aid, touched clock n atom) # kb') ((aid # ids) ! k) =
            Some (touched clock (n + k) a)"
    if "k < length (aid # ids)" for k
  proof (cases k)
    case 0
    then show ?thesis by simp
  next
    case (Suc j)
    with that have "j < length ids" by simp
    with assms(1) obtain a where "map_of kb (ids ! j) = Some a"
      "map_of kb' (ids ! j) = Some (touched clock (Suc n + j) a)"
      by (auto simp: tracked_def)
    with Suc ne \<open>j < length ids\<close> show ?thesis by simp
  qed
  moreover have "map fst kb' = map fst kb" "distinct ids" "set ids \<subseteq> fst ` set kb"
    "\<forall>b. b \<notin> set ids \<longrightarrow> map_of kb' b = map_of kb b"
    using assms(1) by (auto simp: tracked_def)
  ultimately show ?thesis
    using notin unfolding tracked_def by auto
qed

lemma query_loop_tracked:
  assumes "distinct (map fst kb)"
  shows "\<exists>new. snd (query_loop kt src limit clock kb acc) = acc @ new \<and>
           tracked clock (length acc) kb (fst (query_loop kt src limit clock kb acc))
             (map av_atom_id new)"
  using assms
proof (induction kb arbitrary: acc)
  case Nil
  then show ?case by (simp add: tracked_def)
next
  case (Cons entry kb)
  obtain aid atom where entry: "entry = (aid, atom)" by (cases entry)
  from Cons.prems entry have fresh: "aid \<notin> fst ` set kb" and d: "distinct (map fst kb)"
    by auto
  let ?view = "\<lparr>av_atom_id = aid, av_type = atom_type atom, av_content = content atom,
     av_source_agent = source_agent atom, av_created_at = atom_created_at atom,
     av_access_count = access_count atom + 1\<rparr>"
  consider (skip) "(kt \<noteq> [] \<and> atom_type atom \<noteq> kt) \<or> (src \<noteq> [] \<and> source_agent atom \<noteq> src)"
    | (stop) "\<not> ((kt \<noteq> [] \<and> atom_type atom \<noteq> kt) \<or> (src \<noteq> [] \<and> source_agent atom \<noteq> src))"
        "int (length acc) + 1 \<ge> limit"
    | (more) "\<not> ((kt \<noteq> [] \<and> atom_type atom \<noteq> kt) \<or> (src \<noteq> [] \<and> source_agent atom \<noteq> src))"
        "\<not> int (length acc) + 1 \<ge> limit"
    by blast
  then show ?case
  proof cases
    case skip
    from Cons.IH [OF d, of acc] obtain new where
      new: "snd (query_loop kt src limit clock kb acc) = acc @ new"
        "tracked clock (length acc) kb (fst (query_loop kt src limit clock kb acc))
           (map av_atom_id new)"
      by blast
    from skip have "query_loop kt src limit clock (entry # kb) acc =
        ((aid, atom) # fst (query_loop kt src limit clock kb acc),
         snd (query_loop kt src limit clock kb acc))"
      by (auto simp: entry split: prod.splits)
    with new tracked_skip [OF new(2) fresh] entry show ?thesis by auto
  next
    case stop
    then have "query_loop kt src limit clock (entry # kb) acc =
        ((aid, touched clock (length acc) atom) # kb, acc @ [?view])"
      by (auto simp: entry touched_def Let_def)
    with tracked_stop [OF fresh, of clock "length acc" atom] entry show ?thesis by auto
  next
    case more
    from Cons.IH [OF d, of "acc @ [?view]"] obtain new where
      new: "snd (query_loop kt src limit clock kb (acc @ [?view])) = (acc @ [?view]) @ new"
        "tracked clock (Suc (length acc)) kb
           (fst (query_loop kt src limit clock kb (acc @ [?view]))) (map av_atom_id new)"
      by auto
    from more have "query_loop kt src limit clock (entry # kb) acc =
        ((aid, touched clock (length acc) atom) #
           fst (query_loop kt src limit clock kb (acc @ [?view])),
         snd (query_loop kt src limit clock kb (acc @ [?view])))"
      by (auto simp: entry touched_def Let_def split: prod.splits)
    with new tracked_take [OF new(2) fresh, of atom] entry
    show ?thesis by (intro exI [of _ "?view # new"]) auto
  qed
qed

text \<open>The atoms a query returns are the first \<open>max 1 limit\<close> atoms that pass the filters,
  in the order of the knowledge base.\<close>

lemma query_loop_ids:
  "map av_atom_id (snd (query_loop kt src limit clock kb acc)) =
     map av_atom_id acc @
     map fst (take (nat (max 1 (limit - int (length acc))))
                (filter (\<lambda>(aid, atom). matches kt src atom) kb))"
proof (induction kb arbitrary: acc)
  case Nil
  then show ?case by simp
next
  case (Cons entry kb)
  obtain aid atom where entry: "entry = (aid, atom)" by (cases entry)
  show ?case
  proof (cases "matches kt src atom")
    case False
    then have "snd (query_loop kt src limit clock (entry # kb) acc) =
        snd (query_loop kt src limit clock kb acc)"
      by (auto simp: entry matches_def split: prod.splits)
    moreover have "filter (\<lambda>(aid, atom). matches kt src atom) (entry # kb) =
        filter (\<lambda>(aid, atom). matches kt src atom) kb"
      using False by (simp add: entry)
    ultimately show ?thesis
      using Cons.IH [of acc] by simp
  next
    case True
    show ?thesis
    proof (cases "int (length acc) + 1 \<ge> limit")
      case stop: True
      then have "nat (max 1 (limit - int (length acc))) = Suc 0" by simp
      with True stop show ?thesis
        by (auto simp: entry matches_def Let_def)
    next
      case more: False
      let ?view = "\<lparr>av_atom_id = aid, av_type = atom_type atom, av_content = content atom,
        av_source_agent = source_agent atom, av_created_at = atom_created_at atom,
        av_access_count = access_count atom + 1\<rparr>"
      from more have n: "nat (max 1 (limit - int (length acc))) =
          Suc (nat (max 1 (limit - int (length (acc @ [?view])))))"
        by simp
      from True more have "snd (query_loop kt src limit clock (entry # kb) acc) =
          snd (query_loop kt src limit clock kb (acc @ [?view]))"
        by (auto simp: entry matches_def Let_def split: prod.splits)
      with Cons.IH [of "acc @ [?view]"] True show ?thesis
        unfolding n by (simp add: entry)
    qed
  qed
qed

text \<open>
  C5. A query over a knowledge base (a dict: its keys are distinct) leaves the keys and
  their order as they are. Every atom in the reply is there once; the \<open>k\<close>-th atom of the
  reply is stored, after the call, with its access count increased by exactly one and
  with \<open>last_accessed\<close> set to the clock reading taken for it during the query (the loop
  reads the clock once for each atom it returns), and is otherwise as before. Every atom
  whose id is not in the reply, whether a filter excluded it or the limit cut it off, is
  stored exactly as before. The other stores are unchanged.
\<close>

theorem query_counts_returned_atoms:
  assumes "distinct (map fst (knowledge_base s))"
    and "query_knowledge s kt src limit clock = (s', r)"
  shows "map fst (knowledge_base s') = map fst (knowledge_base s) \<and>
         distinct (map av_atom_id (atoms r)) \<and>
         (\<forall>k<length (atoms r). \<exists>atom.
            map_of (knowledge_base s) (av_atom_id (atoms r ! k)) = Some atom \<and>
            map_of (knowledge_base s') (av_atom_id (atoms r ! k)) =
              Some (atom\<lparr>access_count := access_count atom + 1,
                          last_accessed := Some (clock k)\<rparr>)) \<and>
         (\<forall>aid. aid \<notin> av_atom_id ` set (atoms r) \<longrightarrow>
            map_of (knowledge_base s') aid = map_of (knowledge_base s) aid) \<and>
         agents s' = agents s \<and> task_queue s' = task_queue s \<and>
         workflow_history s' = workflow_history s"
proof -
  from query_loop_tracked [OF assms(1), of kt src limit clock "[]"]
  obtain new where new: "snd (query_loop kt src limit clock (knowledge_base s) []) = new"
    "tracked clock 0 (knowledge_base s)
       (fst (query_loop kt src limit clock (knowledge_base s) [])) (map av_atom_id new)"
    by auto
  from assms(2) have s': "s' = s\<lparr>knowledge_base :=
      fst (query_loop kt src limit clock (knowledge_base s) [])\<rparr>"
    and r: "atoms r = new"
    using new(1) by (auto simp: query_knowledge_def split: prod.splits)
  from new(2) show ?thesis
    unfolding tracked_def touched_def by (simp add: s' r)
qed

lemma query_reply_first_matches:
  "total_results (snd (query_knowledge s kt src limit clock)) =
     length (atoms (snd (query_knowledge s kt src limit clock))) \<and>
   map av_atom_id (atoms (snd (query_knowledge s kt src limit clock))) =
     map fst (take (nat (max 1 limit))
                (filter (\<lambda>(aid, atom). matches kt src atom) (knowledge_base s)))"
  using query_loop_ids [of kt src limit clock "knowledge_base s" "[]"]
  by (simp add: query_knowledge_def split_beta)

theorem query_counts_returned_atoms_witness:
  "distinct (map fst (knowledge_base atomspace)) \<and>
   query_knowledge atomspace ''actor'' [] 1 evening =
     (atomspace\<lparr>knowledge_base :=
        [(''actor_1735722000004'',
          player_cube\<lparr>access_count := 1,
            last_accessed := Some ''2025-01-01T18:00:00.000001''\<rparr>),
         (''blueprint_1735722000005'', bp_player),
         (''actor_1735722000006'', main_light)]\<rparr>,
      \<lparr>total_results = 1,
       atoms = [\<lparr>av_atom_id = ''actor_1735722000004'', av_type = ''actor'',
                 av_content = JObj [], av_source_agent = ''cursor-main'',
                 av_created_at = ''2025-01-01T09:00:00.000001'', av_access_count = 1\<rparr>]\<rparr>) \<and>
   map_of (knowledge_base (fst (query_knowledge atomspace ''actor'' [] 1 evening)))
       ''actor_1735722000004'' =
     Some (player_cube\<lparr>access_count := access_count player_cube + 1,
             last_accessed := Some (evening 0)\<rparr>) \<and>
   map_of (knowledge_base (fst (query_knowledge atomspace ''actor'' [] 1 evening)))
       ''blueprint_1735722000005'' = Some bp_player \<and>
   map_of (knowledge_base (fst (query_knowledge atomspace ''actor'' [] 1 evening)))
       ''actor_1735722000006'' = Some main_light"
proof -
  let ?s' = "atomspace\<lparr>knowledge_base :=
        [(''actor_1735722000004'',
          player_cube\<lparr>access_count := 1,
            last_accessed := Some ''2025-01-01T18:00:00.000001''\<rparr>),
         (''blueprint_1735722000005'', bp_player),
         (''actor_1735722000006'', main_light)]\<rparr>"
  let ?r = "\<lparr>total_results = 1,
       atoms = [\<lparr>av_atom_id = ''actor_1735722000004'', av_type = ''actor'',
                 av_content = JObj [], av_source_agent = ''cursor-main'',
                 av_created_at = ''2025-01-01T09:00:00.000001'', av_access_count = 1\<rparr>]\<rparr>"
  have d: "distinct (map fst (knowledge_base atomspace))"
    by (simp add: atomspace_def)
  have q: "query_knowledge atomspace ''actor'' [] 1 evening = (?s', ?r)"
    by (simp add: query_knowledge_def atomspace_def player_cube_def bp_player_def
        main_light_def KnowledgeAtom_def evening_def morning_def)
  have kb: "map_of (knowledge_base atomspace) ''actor_1735722000004'' = Some player_cube"
    "map_of (knowledge_base atomspace) ''blueprint_1735722000005'' = Some bp_player"
    "map_of (knowledge_base atomspace) ''actor_1735722000006'' = Some main_light"
    by (simp_all add: atomspace_def)
  from query_counts_returned_atoms [OF d q]
  have hit: "\<forall>k<length (atoms ?r). \<exists>atom.
            map_of (knowledge_base atomspace) (av_atom_id (atoms ?r ! k)) = Some atom \<and>
            map_of (knowledge_base ?s') (av_atom_id (atoms ?r ! k)) =
              Some (atom\<lparr>access_count := access_count atom + 1,
                          last_accessed := Some (evening k)\<rparr>)"
    and miss: "\<forall>aid. aid \<notin> av_atom_id ` set (atoms ?r) \<longrightarrow>
            map_of (knowledge_base ?s') aid = map_of (knowledge_base atomspace) aid"
    by blast+
  from hit [rule_format, of 0] kb(1)
  have 1: "map_of (knowledge_base ?s') ''actor_1735722000004'' =
     Some (player_cube\<lparr>access_count := access_count player_cube + 1,
             last_accessed := Some (evening 0)\<rparr>)"
    by simp
  from miss [rule_format, of "''blueprint_1735722000005''"] kb(2)
  have 2: "map_of (knowledge_base ?s') ''blueprint_1735722000005'' = Some bp_player"
    by simp
  from miss [rule_format, of "''actor_1735722000006''"] kb(3)
  have 3: "map_of (knowledge_base ?s') ''actor_1735722000006'' = Some main_light"
    by simp
  from d q 1 2 3 show ?thesis by simp
qed

subsection \<open>The order of the task queue\<close>

text \<open>The sort used by \<open>create_workflow_task\<close> orders by descending key and keeps the
  order of elements with equal keys.\<close>

lemma sort_reverse_sorted: "sorted_wrt (\<ge>) (map k (sort_reverse k xs))"
proof -
  have "sorted (map k (sort_key k (rev xs)))" by simp
  then have "sorted_wrt (\<ge>) (rev (map k (sort_key k (rev xs))))"
    by (simp add: sorted_wrt_rev)
  then show ?thesis by (simp add: sort_reverse_def rev_map)
qed

lemma sort_reverse_stable:
  "filter (\<lambda>x. k x = p) (sort_reverse k xs) = filter (\<lambda>x. k x = p) xs"
proof -
  have "filter (\<lambda>x. k x = p) (sort_reverse k xs) =
      rev (filter (\<lambda>x. k x = p) (sort_key k (rev xs)))"
    by (simp add: sort_reverse_def rev_filter)
  also have "\<dots> = rev (filter (\<lambda>x. k x = p) (rev xs))"
    by (simp only: sort_key_stable)
  also have "\<dots> = filter (\<lambda>x. k x = p) xs"
    by (simp add: rev_filter)
  finally show ?thesis .
qed

lemma mset_sort_reverse: "mset (sort_reverse k xs) = mset xs"
  by (simp add: sort_reverse_def)

lemma create_queue:
  "task_queue (fst (create_workflow_task loads s ttype ps assigned prio ms clock)) =
     (case loads_or_empty loads ps of
        Decoded p \<Rightarrow> sort_reverse priority
          (task_queue s @ [WorkflowTask (''task_'' @ str_int ms) ttype p assigned prio clock])
      | JSONDecodeError e \<Rightarrow> task_queue s
      | OtherException exc \<Rightarrow> task_queue s)"
  by (simp add: create_workflow_task_def Let_def split: decoded.splits)

lemma step_create_stable:
  assumes "is_create c"
  shows "filter (\<lambda>t. priority t = p) (task_queue (fst (step loads c s))) =
           filter (\<lambda>t. priority t = p) (task_queue s) @
           filter (\<lambda>t. priority t = p) (created loads c)"
  using assms
  by (cases c) (simp_all add: create_queue sort_reverse_stable split: decoded.splits)

lemma run_Cons:
  "run loads (c # cs) s =
     (fst (run loads cs (fst (step loads c s))),
      snd (step loads c s) # snd (run loads cs (fst (step loads c s))))"
  by (simp add: split_beta)

lemma run_creates_stable:
  assumes "list_all is_create cs"
  shows "filter (\<lambda>t. priority t = p) (task_queue (fst (run loads cs s))) =
           filter (\<lambda>t. priority t = p) (task_queue s) @
           filter (\<lambda>t. priority t = p) (concat (map (created loads) cs))"
  using assms
proof (induction cs arbitrary: s)
  case Nil
  then show ?case by simp
next
  case (Cons c cs)
  then have "is_create c" "list_all is_create cs" by simp_all
  with Cons.IH [of "fst (step loads c s)"] step_create_stable [of c p loads s]
  show ?case by (simp add: run_Cons del: run.simps)
qed

lemma step_create_sorted:
  assumes "is_create c" and "sorted_wrt (\<ge>) (map priority (task_queue s))"
  shows "sorted_wrt (\<ge>) (map priority (task_queue (fst (step loads c s))))"
  using assms
  by (cases c) (simp_all add: create_queue sort_reverse_sorted split: decoded.splits)

lemma run_creates_sorted:
  assumes "list_all is_create cs" and "sorted_wrt (\<ge>) (map priority (task_queue s))"
  shows "sorted_wrt (\<ge>) (map priority (task_queue (fst (run loads cs s))))"
  using assms
proof (induction cs arbitrary: s)
  case Nil
  then show ?case by simp
next
  case (Cons c cs)
  then have "is_create c" "list_all is_create cs" by simp_all
  with Cons.IH [of "fst (step loads c s)"] step_create_sorted [of c s loads] Cons.prems(2)
  show ?case by (simp add: run_Cons del: run.simps)
qed

lemma list_all_tasks:
  "snd (list_workflow_tasks s [] []) = map summary (task_queue s)"
  by (simp add: list_workflow_tasks_def)

text \<open>
  C4. Starting from an empty task queue, after any sequence of \<open>create_workflow_task\<close>
  calls (failed ones included: they add no task) the unfiltered listing has its priorities
  in non-increasing order, and for each priority the listed tasks of that priority are
  exactly the created tasks of that priority, in the order of their creation.
\<close>

theorem creations_listed_by_priority:
  assumes "list_all is_create cs" and "task_queue s = []"
  shows "sorted_wrt (\<ge>)
           (map ts_priority (snd (list_workflow_tasks (fst (run loads cs s)) [] []))) \<and>
         (\<forall>p. filter (\<lambda>t. ts_priority t = p)
                 (snd (list_workflow_tasks (fst (run loads cs s)) [] [])) =
               map summary (filter (\<lambda>t. priority t = p) (concat (map (created loads) cs))))"
proof -
  have pr: "ts_priority \<circ> summary = priority"
    by (rule ext) (simp add: summary_def)
  have "sorted_wrt (\<ge>) (map priority (task_queue (fst (run loads cs s))))"
    using run_creates_sorted [OF assms(1), of s loads] assms(2) by simp
  moreover have "filter (\<lambda>t. ts_priority t = p) (map summary (task_queue (fst (run loads cs s)))) =
      map summary (filter (\<lambda>t. priority t = p) (concat (map (created loads) cs)))" for p
  proof -
    have "filter (\<lambda>t. ts_priority t = p) (map summary (task_queue (fst (run loads cs s)))) =
        map summary (filter (\<lambda>t. priority t = p) (task_queue (fst (run loads cs s))))"
      by (simp add: filter_map o_def summary_def)
    with run_creates_stable [OF assms(1), of p loads s] assms(2) show ?thesis by simp
  qed
  ultimately show ?thesis
    by (simp add: list_all_tasks pr)
qed


lemma four_creations_queue:
  "task_queue (fst (run sample_loads four_creations initial_state)) =
     [setup_level, create_blueprint, spawn_light, create_actor]"
  by (simp add: four_creations_def initial_state_def create_workflow_task_def
      loads_or_empty_def sample_loads_def sort_reverse_def setup_level_def
      create_blueprint_def spawn_light_def create_actor_def WorkflowTask_def
      str_int_def str_nat.simps digit_char_def Let_def)

theorem creations_listed_by_priority_witness:
  "list_all is_create four_creations \<and> task_queue initial_state = [] \<and>
   snd (list_workflow_tasks (fst (run sample_loads four_creations initial_state)) [] []) =
     map summary [setup_level, create_blueprint, spawn_light, create_actor] \<and>
   map ts_priority
     (snd (list_workflow_tasks (fst (run sample_loads four_creations initial_state)) [] [])) =
     [10, 5, 5, 1] \<and>
   sorted_wrt (\<ge>) (map ts_priority
     (snd (list_workflow_tasks (fst (run sample_loads four_creations initial_state)) [] []))) \<and>
   filter (\<lambda>t. ts_priority t = 5)
     (snd (list_workflow_tasks (fst (run sample_loads four_creations initial_state)) [] [])) =
     map summary [create_blueprint, spawn_light]"
proof -
  have c: "list_all is_create four_creations"
    by (simp add: four_creations_def)
  have e: "task_queue initial_state = []"
    by (simp add: initial_state_def)
  have made: "concat (map (created sample_loads) four_creations) =
      [create_actor, setup_level, create_blueprint, spawn_light]"
    by (simp add: four_creations_def loads_or_empty_def sample_loads_def setup_level_def
        create_blueprint_def spawn_light_def create_actor_def
        str_int_def str_nat.simps digit_char_def)
  have l: "snd (list_workflow_tasks (fst (run sample_loads four_creations initial_state)) [] []) =
     map summary [setup_level, create_blueprint, spawn_light, create_actor]"
    by (simp only: list_all_tasks four_creations_queue)
  have p: "map ts_priority (map summary [setup_level, create_blueprint, spawn_light, create_actor]) =
      [10, 5, 5, 1]"
    by (simp add: summary_def setup_level_def create_blueprint_def spawn_light_def
        create_actor_def WorkflowTask_def)
  from creations_listed_by_priority [OF c e, of sample_loads]
  have s: "sorted_wrt (\<ge>) (map ts_priority
      (snd (list_workflow_tasks (fst (run sample_loads four_creations initial_state)) [] [])))"
    and f: "filter (\<lambda>t. ts_priority t = 5)
      (snd (list_workflow_tasks (fst (run sample_loads four_creations initial_state)) [] [])) =
      map summary (filter (\<lambda>t. priority t = 5)
        (concat (map (created sample_loads) four_creations)))"
    by blast+
  have "filter (\<lambda>t. priority t = 5) [create_actor, setup_level, create_blueprint, spawn_light] =
      [create_blueprint, spawn_light]"
    by (simp add: setup_level_def create_blueprint_def spawn_light_def create_actor_def
        WorkflowTask_def)
  with f made have f': "filter (\<lambda>t. ts_priority t = 5)
      (snd (list_workflow_tasks (fst (run sample_loads four_creations initial_state)) [] [])) =
      map summary [create_blueprint, spawn_light]"
    by simp
  from c e l p s f' show ?thesis by (simp only: simp_thms)
qed

subsection \<open>Payloads that do not decode\<close>

text \<open>
  C8 as stated fails in three ways, each shown on the example state:
  \<^item> \<open>complete_workflow_task\<close> looks the task up before it decodes the result, so a call
    that names no task of the queue answers "Task ... not found", not "Invalid JSON in
    result", whatever its result text;
  \<^item> an empty payload is not decoded (\<open>json.loads(x) if x else {}\<close>): the empty string is
    not JSON, yet \<open>share_knowledge\<close> with empty content succeeds and stores an atom whose
    content is the empty object;
  \<^item> the tools catch \<open>json.JSONDecodeError\<close> only: on \<open>'[' * 100000\<close> the decoder raises
    \<open>RecursionError\<close>, which leaves \<open>create_workflow_task\<close> uncaught, so that there is no
    error reply at all.
\<close>

theorem malformed_payload_counterexamples:
  "sample_loads ''not json'' = JSONDecodeError ''Expecting value: line 1 column 1 (char 0)'' \<and>
   complete_workflow_task sample_loads workshop ''task_404'' ''not json'' True evening =
     (workshop, Inl (TaskNotFound ''task_404'')) \<and>
   sample_loads [] = JSONDecodeError ''Expecting value: line 1 column 1 (char 0)'' \<and>
   share_knowledge sample_loads workshop ''actor'' [] ''cursor-main'' [] 1735722000004
       evening =
     (workshop\<lparr>knowledge_base :=
        [(''actor_1735722000004'', KnowledgeAtom ''actor'' (JObj []) ''cursor-main'' evening)]\<rparr>,
      Inr \<lparr>sr_atom_id = ''actor_1735722000004'', sr_knowledge_type = ''actor'',
           sr_created_at = ''2025-01-01T18:00:00.000001''\<rparr>) \<and>
   sample_loads deep_brackets = OtherException ''RecursionError'' \<and>
   create_workflow_task sample_loads workshop ''create_actor'' deep_brackets [] 3
       1735722000008 evening =
     (workshop, Inl (Uncaught ''RecursionError''))"
proof -
  have 1: "sample_loads ''not json'' =
      JSONDecodeError ''Expecting value: line 1 column 1 (char 0)''"
    by (simp add: sample_loads_def short_is_not_deep)
  have 2: "complete_workflow_task sample_loads workshop ''task_404'' ''not json'' True evening =
      (workshop, Inl (TaskNotFound ''task_404''))"
    by (simp add: complete_workflow_task_def workshop_def setup_level_def
        create_blueprint_def create_actor_def WorkflowTask_def)
  have 3: "sample_loads [] = JSONDecodeError ''Expecting value: line 1 column 1 (char 0)''"
    by (simp add: sample_loads_def short_is_not_deep)
  have 4: "share_knowledge sample_loads workshop ''actor'' [] ''cursor-main'' [] 1735722000004
       evening =
     (workshop\<lparr>knowledge_base :=
        [(''actor_1735722000004'', KnowledgeAtom ''actor'' (JObj []) ''cursor-main'' evening)]\<rparr>,
      Inr \<lparr>sr_atom_id = ''actor_1735722000004'', sr_knowledge_type = ''actor'',
           sr_created_at = ''2025-01-01T18:00:00.000001''\<rparr>)"
    by (simp add: share_knowledge_def loads_or_empty_def workshop_def KnowledgeAtom_def
        evening_def str_int_def str_nat.simps digit_char_def Let_def)
  have 5: "sample_loads deep_brackets = OtherException ''RecursionError''"
    by (simp add: sample_loads_def deep_is_not_short)
  have "deep_brackets \<noteq> []"
    by (simp add: deep_is_not_short)
  then have 6: "create_workflow_task sample_loads workshop ''create_actor'' deep_brackets [] 3
       1735722000008 evening =
     (workshop, Inl (Uncaught ''RecursionError''))"
    by (simp add: create_workflow_task_def loads_or_empty_def 5)
  from 1 2 3 4 5 6 show ?thesis by (simp only: simp_thms)
qed

text \<open>An exception of another class than \<open>JSONDecodeError\<close> leaves the tool; the state is
  the one before the call.\<close>

lemma other_exception_propagates:
  assumes "x \<noteq> []" and "loads x = OtherException exc"
  shows "share_knowledge loads s kt x src meta ms clock = (s, Inl (Uncaught exc))"
    and "create_workflow_task loads s ttype x assigned prio ms clock = (s, Inl (Uncaught exc))"
    and "fst (complete_workflow_task loads s tid x success clock) = s"
proof -
  from assms have bad: "loads_or_empty loads x = OtherException exc"
    by (simp add: loads_or_empty_def)
  show "share_knowledge loads s kt x src meta ms clock = (s, Inl (Uncaught exc))"
    by (simp add: share_knowledge_def bad)
  show "create_workflow_task loads s ttype x assigned prio ms clock = (s, Inl (Uncaught exc))"
    by (simp add: create_workflow_task_def bad)
  show "fst (complete_workflow_task loads s tid x success clock) = s"
    by (simp add: complete_workflow_task_def bad split: option.splits)
qed

text \<open>
  C8, amended. Let a payload be non-empty and let \<open>json.loads\<close> raise \<open>JSONDecodeError\<close>
  on it, with message \<open>e\<close>. Then
  \<^item> \<open>share_knowledge\<close> with that content answers the error "Invalid JSON in content or
    metadata: e", and so it does with that metadata when the content decodes;
  \<^item> \<open>create_workflow_task\<close> with those parameters answers "Invalid JSON in task_params: e";
  \<^item> \<open>complete_workflow_task\<close> with that result answers "Invalid JSON in result: e" when
    the task id is the id of a task in the queue, and "Task ... not found" when it is not;
  and in each case the state returned is the state before the call: agents, knowledge
  base, task queue (the task looked up included) and history are unchanged.
  An empty payload is not decoded. It stands for the empty object: \<open>share_knowledge\<close> with
  empty content and metadata stores the atom, \<open>create_workflow_task\<close> with empty parameters
  queues the task, and \<open>complete_workflow_task\<close> with an empty result completes the task it
  finds, for every decoder.
\<close>

theorem malformed_payload_rejected:
  assumes "x \<noteq> []" and "loads x = JSONDecodeError e"
  shows "share_knowledge loads s kt x src meta ms clock =
           (s, Inl (InvalidJSON ''content or metadata'' e)) \<and>
         (loads_or_empty loads c = Decoded v \<longrightarrow>
            share_knowledge loads s kt c src x ms clock =
              (s, Inl (InvalidJSON ''content or metadata'' e))) \<and>
         create_workflow_task loads s ttype x assigned prio ms clock =
           (s, Inl (InvalidJSON ''task_params'' e)) \<and>
         complete_workflow_task loads s tid x success clock =
           (s, Inl (if tid \<in> task_id ` set (task_queue s) then InvalidJSON ''result'' e
                    else TaskNotFound tid)) \<and>
         share_knowledge loads s kt [] src [] ms clock =
           (s\<lparr>knowledge_base := AList.update (kt @ ''_'' @ str_int ms)
                 (KnowledgeAtom kt (JObj []) src clock) (knowledge_base s)\<rparr>,
            Inr \<lparr>sr_atom_id = kt @ ''_'' @ str_int ms, sr_knowledge_type = kt,
                 sr_created_at = clock 0\<rparr>) \<and>
         create_workflow_task loads s ttype [] assigned prio ms clock =
           (s\<lparr>task_queue := sort_reverse priority (task_queue s @
                 [WorkflowTask (''task_'' @ str_int ms) ttype (JObj []) assigned prio clock])\<rparr>,
            Inr \<lparr>cr_task_id = ''task_'' @ str_int ms, cr_task_type = ttype,
                 cr_priority = prio,
                 cr_assigned_agent = (if assigned \<noteq> [] then assigned else ''unassigned'')\<rparr>) \<and>
         (tid \<in> task_id ` set (task_queue s) \<longrightarrow>
            snd (complete_workflow_task loads s tid [] success clock) =
              Inr (tid, if success then ''completed'' else ''failed''))"
proof -
  from assms have bad: "loads_or_empty loads x = JSONDecodeError e"
    by (simp add: loads_or_empty_def)
  have empty: "loads_or_empty loads [] = Decoded (JObj [])"
    by (simp add: loads_or_empty_def)
  have share_content: "share_knowledge loads s kt x src meta ms clock =
      (s, Inl (InvalidJSON ''content or metadata'' e))"
    by (simp add: share_knowledge_def bad)
  have share_meta: "loads_or_empty loads c = Decoded v \<longrightarrow>
      share_knowledge loads s kt c src x ms clock =
        (s, Inl (InvalidJSON ''content or metadata'' e))"
    by (simp add: share_knowledge_def bad)
  have create: "create_workflow_task loads s ttype x assigned prio ms clock =
      (s, Inl (InvalidJSON ''task_params'' e))"
    by (simp add: create_workflow_task_def bad)
  have known: "find_first (\<lambda>t. task_id t = tid) (task_queue s) \<noteq> None \<longleftrightarrow>
      tid \<in> task_id ` set (task_queue s)"
    by (auto simp: find_first_None_iff)
  have complete: "complete_workflow_task loads s tid x success clock =
      (s, Inl (if tid \<in> task_id ` set (task_queue s) then InvalidJSON ''result'' e
               else TaskNotFound tid))"
    using known by (cases "find_first (\<lambda>t. task_id t = tid) (task_queue s)")
      (simp_all add: complete_workflow_task_def bad)
  have share_empty: "share_knowledge loads s kt [] src [] ms clock =
      (s\<lparr>knowledge_base := AList.update (kt @ ''_'' @ str_int ms)
            (KnowledgeAtom kt (JObj []) src clock) (knowledge_base s)\<rparr>,
       Inr \<lparr>sr_atom_id = kt @ ''_'' @ str_int ms, sr_knowledge_type = kt,
            sr_created_at = clock 0\<rparr>)"
    by (simp add: share_knowledge_def empty KnowledgeAtom_def Let_def)
  have create_empty: "create_workflow_task loads s ttype [] assigned prio ms clock =
      (s\<lparr>task_queue := sort_reverse priority (task_queue s @
            [WorkflowTask (''task_'' @ str_int ms) ttype (JObj []) assigned prio clock])\<rparr>,
       Inr \<lparr>cr_task_id = ''task_'' @ str_int ms, cr_task_type = ttype,
            cr_priority = prio,
            cr_assigned_agent = (if assigned \<noteq> [] then assigned else ''unassigned'')\<rparr>)"
    by (simp add: create_workflow_task_def empty Let_def)
  have complete_empty: "tid \<in> task_id ` set (task_queue s) \<longrightarrow>
      snd (complete_workflow_task loads s tid [] success clock) =
        Inr (tid, if success then ''completed'' else ''failed'')"
    using known by (cases "find_first (\<lambda>t. task_id t = tid) (task_queue s)")
      (simp_all add: complete_workflow_task_def empty Let_def)
  from share_content share_meta create complete share_empty create_empty complete_empty
  show ?thesis by (simp only: simp_thms)
qed

theorem malformed_payload_rejected_witness:
  "''not json'' \<noteq> [] \<and>
   sample_loads ''not json'' = JSONDecodeError ''Expecting value: line 1 column 1 (char 0)'' \<and>
   share_knowledge sample_loads workshop ''actor'' ''not json'' ''cursor-main'' []
       1735722000004 evening =
     (workshop, Inl (InvalidJSON ''content or metadata''
                       ''Expecting value: line 1 column 1 (char 0)'')) \<and>
   loads_or_empty sample_loads ''{}'' = Decoded (JObj []) \<and>
   share_knowledge sample_loads workshop ''actor'' ''{}'' ''cursor-main'' ''not json''
       1735722000004 evening =
     (workshop, Inl (InvalidJSON ''content or metadata''
                       ''Expecting value: line 1 column 1 (char 0)'')) \<and>
   create_workflow_task sample_loads workshop ''create_actor'' ''not json'' [] 3
       1735722000004 evening =
     (workshop, Inl (InvalidJSON ''task_params''
                       ''Expecting value: line 1 column 1 (char 0)'')) \<and>
   ''task_1735722000003'' \<in> task_id ` set (task_queue workshop) \<and>
   complete_workflow_task sample_loads workshop ''task_1735722000003'' ''not json'' True
       evening =
     (workshop, Inl (InvalidJSON ''result'' ''Expecting value: line 1 column 1 (char 0)'')) \<and>
   snd (complete_workflow_task sample_loads workshop ''task_1735722000003'' [] True evening) =
     Inr (''task_1735722000003'', ''completed'')"
proof -
  have ne: "''not json'' \<noteq> []" by simp
  have bad: "sample_loads ''not json'' =
      JSONDecodeError ''Expecting value: line 1 column 1 (char 0)''"
    by (simp add: sample_loads_def short_is_not_deep)
  have ok: "loads_or_empty sample_loads ''{}'' = Decoded (JObj [])"
    by (simp add: loads_or_empty_def sample_loads_def)
  have known: "''task_1735722000003'' \<in> task_id ` set (task_queue workshop)"
    by (simp add: workshop_def create_blueprint_def WorkflowTask_def)
  note inst = malformed_payload_rejected [where loads = sample_loads and x = "''not json''"
      and e = "''Expecting value: line 1 column 1 (char 0)''" and s = workshop
      and kt = "''actor''" and src = "''cursor-main''" and meta = "[]"
      and ms = 1735722000004 and clock = evening and c = "''{}''" and v = "JObj []"
      and ttype = "''create_actor''" and assigned = "[]" and prio = 3
      and tid = "''task_1735722000003''" and success = True, OF ne bad]
  have s1: "share_knowledge sample_loads workshop ''actor'' ''not json'' ''cursor-main'' []
       1735722000004 evening =
     (workshop, Inl (InvalidJSON ''content or metadata''
                       ''Expecting value: line 1 column 1 (char 0)''))"
    using inst by simp
  have s2: "share_knowledge sample_loads workshop ''actor'' ''{}'' ''cursor-main'' ''not json''
       1735722000004 evening =
     (workshop, Inl (InvalidJSON ''content or metadata''
                       ''Expecting value: line 1 column 1 (char 0)''))"
    using inst ok by simp
  have s3: "create_workflow_task sample_loads workshop ''create_actor'' ''not json'' [] 3
       1735722000004 evening =
     (workshop, Inl (InvalidJSON ''task_params''
                       ''Expecting value: line 1 column 1 (char 0)''))"
    using inst by simp
  have s4: "complete_workflow_task sample_loads workshop ''task_1735722000003'' ''not json'' True
       evening =
     (workshop, Inl (InvalidJSON ''result'' ''Expecting value: line 1 column 1 (char 0)''))"
    using inst known by simp
  have s5: "snd (complete_workflow_task sample_loads workshop ''task_1735722000003'' [] True
       evening) = Inr (''task_1735722000003'', ''completed'')"
    using inst known by simp
  from ne bad ok known s1 s2 s3 s4 s5 show ?thesis by (simp only: simp_thms)
qed

subsection \<open>The status of a task\<close>

text \<open>
  C3 as stated fails: \<open>complete_workflow_task\<close> does not look at the status of the task
  it finds. In the example state it moves the pending task \<open>task_1735722000002\<close> to
  completed without a claim, and a second call with \<open>success=False\<close> moves the completed
  task to failed.
\<close>

theorem complete_skips_and_reopens:
  "status (task_queue workshop ! 0) = ''pending'' \<and>
   complete_workflow_task sample_loads workshop ''task_1735722000002'' ''{}'' True evening =
     (workshop\<lparr>task_queue :=
         [setup_level\<lparr>status := ''completed'',
            completed_at := Some ''2025-01-01T18:00:00.000001'', result := Some (JObj [])\<rparr>,
          create_blueprint, create_actor],
        workflow_history :=
         [\<lparr>h_task_id = ''task_1735722000002'', h_task_type = ''setup_level'',
           h_agent = ''windsurf-1'', h_status = ''completed'',
           h_completed_at = Some ''2025-01-01T18:00:00.000001'', h_result = JObj []\<rparr>]\<rparr>,
      Inr (''task_1735722000002'', ''completed'')) \<and>
   status (task_queue (fst (complete_workflow_task sample_loads
       (fst (complete_workflow_task sample_loads workshop ''task_1735722000002'' ''{}'' True
          evening))
       ''task_1735722000002'' ''[]'' False evening)) ! 0) = ''failed''"
  by (simp add: complete_workflow_task_def workshop_def setup_level_def WorkflowTask_def
      loads_or_empty_def sample_loads_def evening_def)

lemma claim_queue:
  "task_queue (fst (claim_workflow_task s aid tid clock)) = task_queue s \<or>
   (\<exists>j<length (task_queue s). status (task_queue s ! j) = ''pending'' \<and>
      task_queue (fst (claim_workflow_task s aid tid clock)) =
        (task_queue s)[j := (task_queue s ! j)\<lparr>assigned_agent := aid, status := ''claimed'',
                                               started_at := Some (clock 0)\<rparr>])"
proof (cases "map_of (agents s) aid")
  case None
  then show ?thesis by (simp add: claim_workflow_task_def)
next
  case (Some agent)
  show ?thesis
  proof (cases "task_to_claim (task_queue s) tid")
    case None
    with Some show ?thesis by (simp add: claim_workflow_task_def)
  next
    case found: (Some j)
    then have "j < length (task_queue s)" "status (task_queue s ! j) = ''pending''"
      by (auto simp: task_to_claim_def find_first_Some_iff split: if_splits)
    with Some found show ?thesis
      by (auto simp: claim_workflow_task_def Let_def)
  qed
qed

lemma complete_queue:
  "task_queue (fst (complete_workflow_task loads s tid res success clock)) = task_queue s \<or>
   (\<exists>j<length (task_queue s). \<exists>v.
      task_queue (fst (complete_workflow_task loads s tid res success clock)) =
        (task_queue s)[j := (task_queue s ! j)
           \<lparr>status := (if success then ''completed'' else ''failed''),
            completed_at := Some (clock 0), result := Some v\<rparr>])"
proof (cases "find_first (\<lambda>t. task_id t = tid) (task_queue s)")
  case None
  then show ?thesis by (simp add: complete_workflow_task_def)
next
  case (Some j)
  then have j: "j < length (task_queue s)"
    by (simp add: find_first_Some_iff)
  show ?thesis
  proof (cases "loads_or_empty loads res")
    case (Decoded v)
    with Some j show ?thesis
      by (auto simp: complete_workflow_task_def Let_def)
  next
    case (JSONDecodeError e)
    with Some show ?thesis by (simp add: complete_workflow_task_def)
  next
    case (OtherException exc)
    with Some show ?thesis by (simp add: complete_workflow_task_def)
  qed
qed

lemma claim_forward:
  assumes "i < length (task_queue s)"
  shows "status_rank (status (task_queue s ! i)) \<le>
           status_rank (status (task_queue (fst (claim_workflow_task s aid tid clock)) ! i)) \<and>
         (status (task_queue (fst (claim_workflow_task s aid tid clock)) ! i) \<noteq>
            status (task_queue s ! i) \<longrightarrow>
          status (task_queue s ! i) = ''pending'' \<and>
          status (task_queue (fst (claim_workflow_task s aid tid clock)) ! i) = ''claimed'')"
proof -
  let ?q' = "task_queue (fst (claim_workflow_task s aid tid clock))"
  from claim_queue [of s aid tid clock]
  consider "?q' = task_queue s"
    | j where "j < length (task_queue s)" "status (task_queue s ! j) = ''pending''"
        "?q' = (task_queue s)[j := (task_queue s ! j)\<lparr>assigned_agent := aid,
                  status := ''claimed'', started_at := Some (clock 0)\<rparr>]"
    by blast
  then show ?thesis
  proof cases
    case 1
    then show ?thesis by simp
  next
    case (2 j)
    show ?thesis
    proof (cases "i = j")
      case True
      with 2 show ?thesis by (simp add: status_rank_def)
    next
      case False
      with 2 assms show ?thesis by simp
    qed
  qed
qed

lemma complete_forward:
  assumes "i < length (task_queue s)"
  shows "status_rank (status (task_queue s ! i)) \<le>
           status_rank (status (task_queue (fst (complete_workflow_task loads s tid res success clock)) ! i)) \<and>
         (status (task_queue (fst (complete_workflow_task loads s tid res success clock)) ! i) \<noteq>
            status (task_queue s ! i) \<longrightarrow>
          status (task_queue (fst (complete_workflow_task loads s tid res success clock)) ! i)
            \<in> {''completed'', ''failed''})"
proof -
  let ?q' = "task_queue (fst (complete_workflow_task loads s tid res success clock))"
  from complete_queue [of loads s tid res success clock]
  consider "?q' = task_queue s"
    | j v where "j < length (task_queue s)"
        "?q' = (task_queue s)[j := (task_queue s ! j)
           \<lparr>status := (if success then ''completed'' else ''failed''),
            completed_at := Some (clock 0), result := Some v\<rparr>]"
    by blast
  then show ?thesis
  proof cases
    case 1
    then show ?thesis by simp
  next
    case (2 j v)
    show ?thesis
    proof (cases "i = j")
      case True
      with 2 show ?thesis by (simp add: status_rank_def)
    next
      case False
      with 2 assms show ?thesis by simp
    qed
  qed
qed

lemma claim_length:
  "length (task_queue (fst (claim_workflow_task s aid tid clock))) = length (task_queue s)"
  using claim_queue [of s aid tid clock] by auto

lemma complete_length:
  "length (task_queue (fst (complete_workflow_task loads s tid res success clock))) =
     length (task_queue s)"
  using complete_queue [of loads s tid res success clock] by auto

lemma other_queue:
  "task_queue (fst (register_agent s aid atype caps clock)) = task_queue s"
  "task_queue (fst (deregister_agent s aid)) = task_queue s"
  "task_queue (fst (share_knowledge loads s kt kc src meta ms clock)) = task_queue s"
  "task_queue (fst (query_knowledge s kt src limit clock)) = task_queue s"
  by (simp_all add: register_agent_def deregister_agent_def share_knowledge_def
      query_knowledge_def Let_def split_beta split: option.splits decoded.splits)

lemma created_pending: "t \<in> set (created loads c) \<Longrightarrow> status t = ''pending''"
  by (cases c) (auto simp: WorkflowTask_def split: decoded.splits)

lemma step_create_mset:
  "is_create c \<Longrightarrow>
     mset (task_queue (fst (step loads c s))) = mset (task_queue s) + mset (created loads c)"
  by (cases c) (simp_all add: create_queue mset_sort_reverse split: decoded.splits)

text \<open>
  C3, amended. No call moves the status of a task backward along pending, claimed,
  completed or failed. For every call and every state:
  \<^item> a creation leaves the records of the queue as they are and adds at most the task it
    constructs, which is pending (the queue is re-sorted);
  \<^item> a clear empties the queue or leaves it as it is;
  \<^item> every other call keeps each task at its index, and the rank of its status
    (pending 0, claimed 1, anything else 2) does not decrease; where the status of a task
    changes, either the call is a claim and the status changes from pending to claimed,
    or the call is a completion and the new status is completed or failed.
  So a claimed, completed or failed task never returns to pending, and a completed or
  failed task never becomes claimed. A completion takes a task of any status: it can move
  a pending task to completed or failed directly, and a completed task to failed.
\<close>

theorem status_never_moves_back:
  "(is_create c \<longrightarrow>
      mset (task_queue (fst (step loads c s))) = mset (task_queue s) + mset (created loads c) \<and>
      (\<forall>t\<in>set (created loads c). status t = ''pending'')) \<and>
   (is_clear c \<longrightarrow>
      task_queue (fst (step loads c s)) = [] \<or>
      task_queue (fst (step loads c s)) = task_queue s) \<and>
   (\<not> is_create c \<and> \<not> is_clear c \<longrightarrow>
      length (task_queue (fst (step loads c s))) = length (task_queue s) \<and>
      (\<forall>i<length (task_queue s).
         status_rank (status (task_queue s ! i)) \<le>
           status_rank (status (task_queue (fst (step loads c s)) ! i)) \<and>
         (status (task_queue (fst (step loads c s)) ! i) \<noteq> status (task_queue s ! i) \<longrightarrow>
            is_claim c \<and> status (task_queue s ! i) = ''pending'' \<and>
              status (task_queue (fst (step loads c s)) ! i) = ''claimed'' \<or>
            is_complete c \<and>
              status (task_queue (fst (step loads c s)) ! i) \<in> {''completed'', ''failed''})))"
proof (cases c)
  case (CreateWorkflowTask ttype ps assigned prio ms clock)
  then have "is_create c" by simp
  with step_create_mset [of c loads s] created_pending [of _ loads c] CreateWorkflowTask
  show ?thesis by auto
next
  case (ClearOrchestrationState confirm)
  then show ?thesis by (simp add: clear_orchestration_state_def)
next
  case (ClaimWorkflowTask aid tid clock)
  with claim_length [of s aid tid clock] claim_forward [of _ s aid tid clock]
  show ?thesis by simp
next
  case (CompleteWorkflowTask tid res success clock)
  with complete_length [of loads s tid res success clock]
    complete_forward [of _ s loads tid res success clock]
  show ?thesis by simp
qed (simp_all add: other_queue)


theorem status_never_moves_back_witness:
  "is_create (CreateWorkflowTask ''spawn_light'' ''{}'' [] 5 1735722000007 morning) \<and>
   mset (task_queue (fst (step sample_loads
       (CreateWorkflowTask ''spawn_light'' ''{}'' [] 5 1735722000007 morning) workshop))) =
     mset (task_queue workshop) + {#spawn_light#} \<and>
   status spawn_light = ''pending'' \<and>
   is_clear (ClearOrchestrationState True) \<and>
   task_queue (fst (step sample_loads (ClearOrchestrationState True) workshop)) = [] \<and>
   \<not> is_create (ClaimWorkflowTask ''cursor-main'' [] evening) \<and>
   \<not> is_clear (ClaimWorkflowTask ''cursor-main'' [] evening) \<and>
   is_claim (ClaimWorkflowTask ''cursor-main'' [] evening) \<and>
   length (task_queue (fst (step sample_loads (ClaimWorkflowTask ''cursor-main'' [] evening)
     workshop))) = 3 \<and>
   status (task_queue workshop ! 1) = ''pending'' \<and>
   status (task_queue (fst (step sample_loads (ClaimWorkflowTask ''cursor-main'' [] evening)
     workshop)) ! 1) = ''claimed'' \<and>
   status_rank (status (task_queue workshop ! 1)) \<le>
     status_rank (status (task_queue (fst (step sample_loads
       (ClaimWorkflowTask ''cursor-main'' [] evening) workshop)) ! 1))"
proof -
  let ?create = "CreateWorkflowTask ''spawn_light'' ''{}'' [] 5 1735722000007 morning"
  let ?claim = "ClaimWorkflowTask ''cursor-main'' [] evening"
  have made: "created sample_loads ?create = [spawn_light]"
    by (simp add: loads_or_empty_def sample_loads_def spawn_light_def
        str_int_def str_nat.simps digit_char_def)
  have "mset (task_queue (fst (step sample_loads ?create workshop))) =
      mset (task_queue workshop) + mset (created sample_loads ?create) \<and>
      (\<forall>t\<in>set (created sample_loads ?create). status t = ''pending'')"
    using status_never_moves_back [of ?create sample_loads workshop]
    by (simp del: created.simps step.simps)
  then have a: "mset (task_queue (fst (step sample_loads ?create workshop))) =
      mset (task_queue workshop) + {#spawn_light#}"
    and a': "status spawn_light = ''pending''"
    unfolding made by simp_all
  have b: "task_queue (fst (step sample_loads (ClearOrchestrationState True) workshop)) = []"
    using status_never_moves_back [of "ClearOrchestrationState True" sample_loads workshop]
    by (simp add: clear_orchestration_state_def)
  have len: "length (task_queue workshop) = 3"
    by (simp add: workshop_def)
  have p: "status (task_queue workshop ! 1) = ''pending''"
    by (simp add: workshop_def create_blueprint_def WorkflowTask_def)
  have reg: "map_of (agents workshop) ''cursor-main'' = Some cursor_main"
    by (simp add: workshop_def)
  have pick: "task_to_claim (task_queue workshop) [] = Some 1"
    by (simp add: task_to_claim_def workshop_def setup_level_def create_blueprint_def
        WorkflowTask_def)
  have c: "status (task_queue (fst (step sample_loads ?claim workshop)) ! 1) = ''claimed''"
    using len by (simp add: claim_workflow_task_def reg pick Let_def)
  from status_never_moves_back [of ?claim sample_loads workshop] len
  have l: "length (task_queue (fst (step sample_loads ?claim workshop))) = 3"
    and r: "status_rank (status (task_queue workshop ! 1)) \<le>
     status_rank (status (task_queue (fst (step sample_loads ?claim workshop)) ! 1))"
    by simp_all
  from a a' b l p c r show ?thesis by simp
qed

subsection \<open>Two claims at the same time\<close>

text \<open>
  C1 as stated fails when the callers are not registered: \<open>claim_workflow_task\<close> first
  tests \<open>agent_id not in agents\<close>. With one open task and no agent registered, two claims
  without a task id both answer "Agent ... not registered", in either order: none
  succeeds, and neither answers "No available tasks to claim".
\<close>

theorem unregistered_claims_both_fail:
  "length (filter claimable (task_queue unattended)) = 1 \<and>
   run sample_loads
       [ClaimWorkflowTask ''cursor-main'' [] morning, ClaimWorkflowTask ''windsurf-1'' [] evening]
       unattended =
     (unattended,
      [ClaimReply (Inl (AgentNotRegistered ''cursor-main'')),
       ClaimReply (Inl (AgentNotRegistered ''windsurf-1''))]) \<and>
   run sample_loads
       [ClaimWorkflowTask ''windsurf-1'' [] evening, ClaimWorkflowTask ''cursor-main'' [] morning]
       unattended =
     (unattended,
      [ClaimReply (Inl (AgentNotRegistered ''windsurf-1'')),
       ClaimReply (Inl (AgentNotRegistered ''cursor-main''))])"
  by (simp add: unattended_def initial_state_def claimable_def create_actor_def
      WorkflowTask_def claim_workflow_task_def)

lemma task_to_claim_open: "task_to_claim q [] = find_first claimable q"
  by (simp add: task_to_claim_def claimable_def [abs_def])

lemma only_match:
  assumes "length (filter P xs) = 1"
  shows "\<exists>i. find_first P xs = Some i \<and> (\<forall>y. \<not> P y \<longrightarrow> find_first P (xs[i := y]) = None)"
  using assms
proof (induction xs)
  case Nil
  then show ?case by simp
next
  case (Cons x xs)
  show ?case
  proof (cases "P x")
    case True
    with Cons.prems have "filter P xs = []" by simp
    then have "find_first P xs = None"
      by (simp add: find_first_None_iff filter_empty_conv)
    with True show ?thesis by simp
  next
    case False
    with Cons.prems have "length (filter P xs) = 1" by simp
    with Cons.IH obtain i where "find_first P xs = Some i"
      "\<forall>y. \<not> P y \<longrightarrow> find_first P (xs[i := y]) = None"
      by blast
    with False show ?thesis by simp
  qed
qed

lemma claim_pair:
  assumes "map_of (agents s) a1 = Some ag1" and "map_of (agents s) a2 = Some ag2"
    and "length (filter claimable (task_queue s)) = 1"
  shows "\<exists>r. snd (run loads [ClaimWorkflowTask a1 [] k1, ClaimWorkflowTask a2 [] k2] s) =
           [ClaimReply (Inr r), ClaimReply (Inl NoAvailableTasks)]"
proof -
  let ?claimed = "\<lambda>t. t\<lparr>assigned_agent := a1, status := ''claimed'', started_at := Some (k1 0)\<rparr>"
  have "\<not> claimable (?claimed t)" for t
    by (simp add: claimable_def)
  moreover from only_match [OF assms(3)] obtain i where
    "find_first claimable (task_queue s) = Some i"
    "\<forall>y. \<not> claimable y \<longrightarrow> find_first claimable ((task_queue s)[i := y]) = None"
    by blast
  ultimately have i: "task_to_claim (task_queue s) [] = Some i"
    and gone: "task_to_claim ((task_queue s)[i := ?claimed (task_queue s ! i)]) [] = None"
    by (simp_all add: task_to_claim_open)
  let ?s1 = "s\<lparr>task_queue := (task_queue s)[i := ?claimed (task_queue s ! i)],
      agents := AList.update a1
        (ag1\<lparr>task_count := task_count ag1 + 1, last_active := k1 1\<rparr>) (agents s)\<rparr>"
  let ?r = "\<lparr>cl_task_id = task_id (task_queue s ! i), cl_task_type = task_type (task_queue s ! i),
      cl_params = params (task_queue s ! i), cl_priority = priority (task_queue s ! i)\<rparr>"
  have first: "claim_workflow_task s a1 [] k1 = (?s1, Inr ?r)"
    using assms(1) i by (simp add: claim_workflow_task_def Let_def)
  have "\<exists>ag. map_of (agents ?s1) a2 = Some ag"
    using assms(2) by (simp add: update_conv')
  then have second: "claim_workflow_task ?s1 a2 [] k2 = (?s1, Inl NoAvailableTasks)"
    using gone by (auto simp: claim_workflow_task_def)
  have s1: "step loads (ClaimWorkflowTask a1 [] k1) s = (?s1, ClaimReply (Inr ?r))"
    by (simp only: step.simps first map_prod_simp id_apply)
  have s2: "step loads (ClaimWorkflowTask a2 [] k2) ?s1 =
      (?s1, ClaimReply (Inl NoAvailableTasks))"
    by (simp only: step.simps second map_prod_simp id_apply)
  have "snd (run loads [ClaimWorkflowTask a1 [] k1, ClaimWorkflowTask a2 [] k2] s) =
      [ClaimReply (Inr ?r), ClaimReply (Inl NoAvailableTasks)]"
    by (simp only: run_Cons run.simps s1 s2 fst_conv snd_conv)
  then show ?thesis ..
qed

lemma claims_differ:
  assumes "claim_workflow_task s a1 t1 k1 = (s1, Inr r1)"
    and "claim_workflow_task s1 a2 t2 k2 = (s2, Inr r2)"
  shows "\<exists>i j. task_to_claim (task_queue s) t1 = Some i \<and>
           task_to_claim (task_queue s1) t2 = Some j \<and> i \<noteq> j"
proof -
  from assms(1) obtain i where i: "task_to_claim (task_queue s) t1 = Some i"
    and q1: "task_queue s1 = (task_queue s)
       [i := (task_queue s ! i)\<lparr>assigned_agent := a1, status := ''claimed'',
                                started_at := Some (k1 0)\<rparr>]"
    by (auto simp: claim_workflow_task_def Let_def split: option.splits)
  from assms(2) obtain j where j: "task_to_claim (task_queue s1) t2 = Some j"
    by (auto simp: claim_workflow_task_def Let_def split: option.splits)
  from i have "i < length (task_queue s)"
    by (auto simp: task_to_claim_def find_first_Some_iff split: if_splits)
  with q1 have "status (task_queue s1 ! i) = ''claimed''" by simp
  moreover from j have "status (task_queue s1 ! j) = ''pending''"
    by (auto simp: task_to_claim_def find_first_Some_iff split: if_splits)
  ultimately have "i \<noteq> j" by auto
  with i j show ?thesis by blast
qed

text \<open>
  C1, amended. Two claims without a task id are made at the same time by two registered
  agents (or by one), against a queue with exactly one pending unassigned task. Each
  claim holds the lock for its whole body, so the two take effect in one of the two
  serial orders. In both orders the claim that runs first succeeds and the other one
  answers "No available tasks to claim": exactly one succeeds. And for any two claims
  that take effect one after the other, with or without task ids, by any agents and on
  any queue: if both succeed, they took tasks at different positions of the queue, so
  two claims never both succeed against the same task.
\<close>

theorem one_claim_wins:
  "(map_of (agents s) a1 \<noteq> None \<and> map_of (agents s) a2 \<noteq> None \<and>
    length (filter claimable (task_queue s)) = 1 \<longrightarrow>
      (\<forall>cs\<in>set (serial_orders (ClaimWorkflowTask a1 [] k1) (ClaimWorkflowTask a2 [] k2)).
         \<exists>r. snd (run loads cs s) = [ClaimReply (Inr r), ClaimReply (Inl NoAvailableTasks)])) \<and>
   (claim_workflow_task s a1 t1 k1 = (s1, Inr r1) \<and>
    claim_workflow_task s1 a2 t2 k2 = (s2, Inr r2) \<longrightarrow>
      (\<exists>i j. task_to_claim (task_queue s) t1 = Some i \<and>
         task_to_claim (task_queue s1) t2 = Some j \<and> i \<noteq> j))"
proof (intro conjI impI)
  assume a: "map_of (agents s) a1 \<noteq> None \<and> map_of (agents s) a2 \<noteq> None \<and>
    length (filter claimable (task_queue s)) = 1"
  then obtain ag1 ag2 where "map_of (agents s) a1 = Some ag1" "map_of (agents s) a2 = Some ag2"
    by auto
  with a claim_pair [of s a1 ag1 a2 ag2 loads k1 k2] claim_pair [of s a2 ag2 a1 ag1 loads k2 k1]
  show "\<forall>cs\<in>set (serial_orders (ClaimWorkflowTask a1 [] k1) (ClaimWorkflowTask a2 [] k2)).
         \<exists>r. snd (run loads cs s) = [ClaimReply (Inr r), ClaimReply (Inl NoAvailableTasks)]"
    by (simp add: serial_orders_def del: run.simps)
next
  assume "claim_workflow_task s a1 t1 k1 = (s1, Inr r1) \<and>
    claim_workflow_task s1 a2 t2 k2 = (s2, Inr r2)"
  then show "\<exists>i j. task_to_claim (task_queue s) t1 = Some i \<and>
         task_to_claim (task_queue s1) t2 = Some j \<and> i \<noteq> j"
    using claims_differ by blast
qed


theorem one_claim_wins_witness:
  "map_of (agents one_open) ''cursor-main'' \<noteq> None \<and>
   map_of (agents one_open) ''windsurf-1'' \<noteq> None \<and>
   length (filter claimable (task_queue one_open)) = 1 \<and>
   snd (run sample_loads
     [ClaimWorkflowTask ''cursor-main'' [] morning, ClaimWorkflowTask ''windsurf-1'' [] evening]
     one_open) =
     [ClaimReply (Inr \<lparr>cl_task_id = ''task_1735722000001'', cl_task_type = ''create_actor'',
                       cl_params = JObj [], cl_priority = 1\<rparr>),
      ClaimReply (Inl NoAvailableTasks)] \<and>
   snd (run sample_loads
     [ClaimWorkflowTask ''windsurf-1'' [] evening, ClaimWorkflowTask ''cursor-main'' [] morning]
     one_open) =
     [ClaimReply (Inr \<lparr>cl_task_id = ''task_1735722000001'', cl_task_type = ''create_actor'',
                       cl_params = JObj [], cl_priority = 1\<rparr>),
      ClaimReply (Inl NoAvailableTasks)] \<and>
   snd (claim_workflow_task workshop ''cursor-main'' [] morning) =
     Inr \<lparr>cl_task_id = ''task_1735722000003'', cl_task_type = ''create_blueprint'',
          cl_params = JArr [], cl_priority = 5\<rparr> \<and>
   snd (claim_workflow_task (fst (claim_workflow_task workshop ''cursor-main'' [] morning))
     ''windsurf-1'' [] evening) =
     Inr \<lparr>cl_task_id = ''task_1735722000001'', cl_task_type = ''create_actor'',
          cl_params = JObj [], cl_priority = 1\<rparr> \<and>
   task_to_claim (task_queue workshop) [] = Some 1 \<and>
   task_to_claim (task_queue (fst (claim_workflow_task workshop ''cursor-main'' [] morning)))
     [] = Some 2 \<and>
   (\<exists>i j. task_to_claim (task_queue workshop) [] = Some i \<and>
      task_to_claim (task_queue (fst (claim_workflow_task workshop ''cursor-main'' [] morning)))
        [] = Some j \<and> i \<noteq> j)"
proof -
  let ?c1 = "ClaimWorkflowTask ''cursor-main'' [] morning"
  let ?c2 = "ClaimWorkflowTask ''windsurf-1'' [] evening"
  let ?r = "\<lparr>cl_task_id = ''task_1735722000001'', cl_task_type = ''create_actor'',
      cl_params = JObj [], cl_priority = 1\<rparr>"
  have reg: "map_of (agents one_open) ''cursor-main'' \<noteq> None"
    "map_of (agents one_open) ''windsurf-1'' \<noteq> None"
    by (simp_all add: one_open_def workshop_def)
  have one: "length (filter claimable (task_queue one_open)) = 1"
    by (simp add: one_open_def claimable_def setup_level_def create_actor_def WorkflowTask_def)
  have o1: "snd (run sample_loads [?c1, ?c2] one_open) =
      [ClaimReply (Inr ?r), ClaimReply (Inl NoAvailableTasks)]"
    by (simp add: claim_workflow_task_def task_to_claim_def one_open_def workshop_def
        setup_level_def create_actor_def WorkflowTask_def Let_def)
  have o2: "snd (run sample_loads [?c2, ?c1] one_open) =
      [ClaimReply (Inr ?r), ClaimReply (Inl NoAvailableTasks)]"
    by (simp add: claim_workflow_task_def task_to_claim_def one_open_def workshop_def
        setup_level_def create_actor_def WorkflowTask_def Let_def)
  have first: "claim_workflow_task workshop ''cursor-main'' [] morning =
      (fst (claim_workflow_task workshop ''cursor-main'' [] morning),
       Inr \<lparr>cl_task_id = ''task_1735722000003'', cl_task_type = ''create_blueprint'',
            cl_params = JArr [], cl_priority = 5\<rparr>)"
    by (simp add: claim_workflow_task_def task_to_claim_def workshop_def setup_level_def
        create_blueprint_def WorkflowTask_def Let_def)
  have second: "claim_workflow_task (fst (claim_workflow_task workshop ''cursor-main'' [] morning))
      ''windsurf-1'' [] evening =
      (fst (claim_workflow_task (fst (claim_workflow_task workshop ''cursor-main'' [] morning))
         ''windsurf-1'' [] evening),
       Inr \<lparr>cl_task_id = ''task_1735722000001'', cl_task_type = ''create_actor'',
            cl_params = JObj [], cl_priority = 1\<rparr>)"
    by (simp add: claim_workflow_task_def task_to_claim_def workshop_def setup_level_def
        create_blueprint_def create_actor_def WorkflowTask_def Let_def)
  have p1: "task_to_claim (task_queue workshop) [] = Some 1"
    by (simp add: task_to_claim_def workshop_def setup_level_def create_blueprint_def
        WorkflowTask_def)
  have p2: "task_to_claim (task_queue (fst (claim_workflow_task workshop ''cursor-main'' []
      morning))) [] = Some 2"
    by (simp add: claim_workflow_task_def task_to_claim_def workshop_def setup_level_def
        create_blueprint_def create_actor_def WorkflowTask_def Let_def)
  note inst = one_claim_wins [where s = one_open and ?a1.0 = "''cursor-main''"
      and ?a2.0 = "''windsurf-1''" and ?k1.0 = morning and ?k2.0 = evening
      and loads = sample_loads]
  from inst reg one
  have "\<forall>cs\<in>set (serial_orders ?c1 ?c2).
      \<exists>r. snd (run sample_loads cs one_open) =
        [ClaimReply (Inr r), ClaimReply (Inl NoAvailableTasks)]"
    by blast
  then have both: "\<exists>r. snd (run sample_loads [?c1, ?c2] one_open) =
        [ClaimReply (Inr r), ClaimReply (Inl NoAvailableTasks)]"
    "\<exists>r. snd (run sample_loads [?c2, ?c1] one_open) =
        [ClaimReply (Inr r), ClaimReply (Inl NoAvailableTasks)]"
    by (simp_all add: serial_orders_def del: run.simps)
  from one_claim_wins [where s = workshop and ?a1.0 = "''cursor-main''" and ?t1.0 = "[]"
      and ?k1.0 = morning and ?a2.0 = "''windsurf-1''" and ?t2.0 = "[]" and ?k2.0 = evening
      and ?s1.0 = "fst (claim_workflow_task workshop ''cursor-main'' [] morning)"
      and ?s2.0 = "fst (claim_workflow_task
          (fst (claim_workflow_task workshop ''cursor-main'' [] morning))
          ''windsurf-1'' [] evening)"]
    first second
  have differ: "\<exists>i j. task_to_claim (task_queue workshop) [] = Some i \<and>
      task_to_claim (task_queue (fst (claim_workflow_task workshop ''cursor-main'' [] morning)))
        [] = Some j \<and> i \<noteq> j"
    by blast
  have f: "snd (claim_workflow_task workshop ''cursor-main'' [] morning) =
     Inr \<lparr>cl_task_id = ''task_1735722000003'', cl_task_type = ''create_blueprint'',
          cl_params = JArr [], cl_priority = 5\<rparr>"
    by (subst first) simp
  have g: "snd (claim_workflow_task (fst (claim_workflow_task workshop ''cursor-main'' [] morning))
     ''windsurf-1'' [] evening) =
     Inr \<lparr>cl_task_id = ''task_1735722000001'', cl_task_type = ''create_actor'',
          cl_params = JObj [], cl_priority = 1\<rparr>"
    by (subst second) simp
  from reg one o1 o2 f g p1 p2 differ both show ?thesis by (simp only: simp_thms)
qed

subsection \<open>Reachable states\<close>

text \<open>
  Every call keeps the keys of the two dicts distinct and the queue in non-increasing
  order of priority, so every state reached from the empty one is well formed: the
  hypotheses on the state made above hold of every state the tools can be in.
\<close>

lemma query_loop_keys:
  "map fst (fst (query_loop kt src limit clock kb acc)) = map fst kb"
  by (induction kb arbitrary: acc) (auto simp: Let_def split_beta)

lemma map_update_same:
  "j < length xs \<Longrightarrow> f y = f (xs ! j) \<Longrightarrow> map f (xs[j := y]) = map f xs"
  by (induction xs arbitrary: j) (auto split: nat.splits)

lemma claim_priorities:
  "map priority (task_queue (fst (claim_workflow_task s aid tid clock))) =
     map priority (task_queue s)"
proof -
  from claim_queue [of s aid tid clock]
  consider "task_queue (fst (claim_workflow_task s aid tid clock)) = task_queue s"
    | j where "j < length (task_queue s)"
        "task_queue (fst (claim_workflow_task s aid tid clock)) =
           (task_queue s)[j := (task_queue s ! j)\<lparr>assigned_agent := aid,
              status := ''claimed'', started_at := Some (clock 0)\<rparr>]"
    by blast
  then show ?thesis
  proof cases
    case 1
    then show ?thesis by simp
  next
    case (2 j)
    then show ?thesis by (simp add: map_update_same)
  qed
qed

lemma complete_priorities:
  "map priority (task_queue (fst (complete_workflow_task loads s tid res success clock))) =
     map priority (task_queue s)"
proof -
  from complete_queue [of loads s tid res success clock]
  consider "task_queue (fst (complete_workflow_task loads s tid res success clock)) =
      task_queue s"
    | j v where "j < length (task_queue s)"
        "task_queue (fst (complete_workflow_task loads s tid res success clock)) =
           (task_queue s)[j := (task_queue s ! j)
             \<lparr>status := (if success then ''completed'' else ''failed''),
              completed_at := Some (clock 0), result := Some v\<rparr>]"
    by blast
  then show ?thesis
  proof cases
    case 1
    then show ?thesis by simp
  next
    case (2 j v)
    then show ?thesis by (simp add: map_update_same)
  qed
qed

lemma step_well_formed:
  assumes "well_formed s"
  shows "well_formed (fst (step loads c s))"
proof (cases c)
  case (RegisterAgent aid atype caps clock)
  with assms show ?thesis
    by (auto simp: well_formed_def register_agent_def Let_def distinct_update
        split: option.splits)
next
  case (DeregisterAgent aid)
  with assms show ?thesis
    by (auto simp: well_formed_def deregister_agent_def distinct_update split: option.splits)
next
  case (ShareKnowledge kt kc src meta ms clock)
  with assms show ?thesis
    by (auto simp: well_formed_def share_knowledge_def Let_def distinct_update
        split: decoded.splits)
next
  case (QueryKnowledge kt src limit clock)
  with assms show ?thesis
    by (simp add: well_formed_def query_knowledge_def split_beta query_loop_keys)
next
  case (CreateWorkflowTask ttype ps assigned prio ms clock)
  with assms show ?thesis
    by (auto simp: well_formed_def create_workflow_task_def Let_def sort_reverse_sorted
        split: decoded.splits)
next
  case (ClaimWorkflowTask aid tid clock)
  have "agents (fst (claim_workflow_task s aid tid clock)) = agents s \<or>
      (\<exists>v. agents (fst (claim_workflow_task s aid tid clock)) = AList.update aid v (agents s))"
    by (auto simp: claim_workflow_task_def Let_def split: option.splits)
  moreover have "knowledge_base (fst (claim_workflow_task s aid tid clock)) = knowledge_base s"
    by (auto simp: claim_workflow_task_def Let_def split: option.splits)
  ultimately show ?thesis
    using assms ClaimWorkflowTask claim_priorities [of s aid tid clock]
    by (auto simp: well_formed_def distinct_update)
next
  case (CompleteWorkflowTask tid res success clock)
  have "agents (fst (complete_workflow_task loads s tid res success clock)) = agents s"
    "knowledge_base (fst (complete_workflow_task loads s tid res success clock)) =
       knowledge_base s"
    by (auto simp: complete_workflow_task_def Let_def split: option.splits decoded.splits)
  then show ?thesis
    using assms CompleteWorkflowTask complete_priorities [of loads s tid res success clock]
    by (simp add: well_formed_def)
next
  case (ClearOrchestrationState confirm)
  with assms show ?thesis
    by (simp add: well_formed_def clear_orchestration_state_def)
qed (use assms in simp_all)

lemma run_well_formed:
  assumes "well_formed s"
  shows "well_formed (fst (run loads cs s))"
  using assms
proof (induction cs arbitrary: s)
  case Nil
  then show ?case by simp
next
  case (Cons c cs)
  from Cons.IH [OF step_well_formed [OF Cons.prems, of loads c]]
  show ?case by (simp add: run_Cons del: run.simps)
qed

lemma reachable_well_formed: "well_formed (fst (run loads cs initial_state))"
  by (rule run_well_formed) (simp add: well_formed_def initial_state_def)

end
